theory Spec2Isabelle
  imports Complex_Main
begin

section \<open>Vectors, boxes and matrices of the scene-graph library\<close>

text \<open>
  The viewer script \<^verbatim>\<open>main.js\<close> is glue over a scene-graph library. JavaScript numbers
  are modelled as \<^typ>\<open>real\<close>: the arithmetic below is the exact arithmetic that the
  doubles of the program approximate. The library classes the script calls
  (\<^verbatim>\<open>Vector3\<close>, \<^verbatim>\<open>Box3\<close>, \<^verbatim>\<open>Matrix4\<close>, \<^verbatim>\<open>Object3D\<close>) are modelled by what
  their methods compute.
\<close>

record vec3 =
  vx :: real
  vy :: real
  vz :: real

definition Vector3 :: "real \<Rightarrow> real \<Rightarrow> real \<Rightarrow> vec3" where
  "Vector3 a b c = \<lparr>vx = a, vy = b, vz = c\<rparr>"

definition vadd :: "vec3 \<Rightarrow> vec3 \<Rightarrow> vec3" where
  "vadd a b = \<lparr>vx = vx a + vx b, vy = vy a + vy b, vz = vz a + vz b\<rparr>"

definition vsub :: "vec3 \<Rightarrow> vec3 \<Rightarrow> vec3" where
  "vsub a b = \<lparr>vx = vx a - vx b, vy = vy a - vy b, vz = vz a - vz b\<rparr>"

definition multiplyScalar :: "vec3 \<Rightarrow> real \<Rightarrow> vec3" where
  "multiplyScalar a s = \<lparr>vx = vx a * s, vy = vy a * s, vz = vz a * s\<rparr>"

definition vmin :: "vec3 \<Rightarrow> vec3 \<Rightarrow> vec3" where
  "vmin a b = \<lparr>vx = min (vx a) (vx b), vy = min (vy a) (vy b), vz = min (vz a) (vz b)\<rparr>"

definition vmax :: "vec3 \<Rightarrow> vec3 \<Rightarrow> vec3" where
  "vmax a b = \<lparr>vx = max (vx a) (vx b), vy = max (vy a) (vy b), vz = max (vz a) (vz b)\<rparr>"

text \<open>
  \<^verbatim>\<open>Box3\<close>: the library's empty box has \<open>min = +\<infinity>\<close> and \<open>max = -\<infinity>\<close>; here it is
  the constructor \<open>EmptyBox\<close>. \<^verbatim>\<open>isEmpty\<close> also holds of a box inverted on some axis.
\<close>

datatype box3 = EmptyBox | Box3 (bmin: vec3) (bmax: vec3)

fun isEmpty :: "box3 \<Rightarrow> bool" where
  "isEmpty EmptyBox = True"
| "isEmpty (Box3 mn mx) = (vx mx < vx mn \<or> vy mx < vy mn \<or> vz mx < vz mn)"

fun expandByPoint :: "vec3 \<Rightarrow> box3 \<Rightarrow> box3" where
  "expandByPoint p EmptyBox = Box3 p p"
| "expandByPoint p (Box3 mn mx) = Box3 (vmin mn p) (vmax mx p)"

definition setFromPoints :: "vec3 list \<Rightarrow> box3" where
  "setFromPoints ps = fold expandByPoint ps EmptyBox"

fun union_box :: "box3 \<Rightarrow> box3 \<Rightarrow> box3" where
  "union_box EmptyBox b = b"
| "union_box (Box3 mn mx) EmptyBox = Box3 mn mx"
| "union_box (Box3 mn mx) (Box3 mn' mx') = Box3 (vmin mn mn') (vmax mx mx')"

definition getCenter :: "box3 \<Rightarrow> vec3" where
  "getCenter b =
     (if isEmpty b then Vector3 0 0 0 else multiplyScalar (vadd (bmin b) (bmax b)) 0.5)"

definition getSize :: "box3 \<Rightarrow> vec3" where
  "getSize b = (if isEmpty b then Vector3 0 0 0 else vsub (bmax b) (bmin b))"

text \<open>
  \<^verbatim>\<open>Matrix4\<close>, restricted to the affine matrices a scene graph composes: the three columns
  of the linear part and the translation.
\<close>

datatype matrix4 = Matrix4 (col1: vec3) (col2: vec3) (col3: vec3) (trans: vec3)

definition applyLinear :: "matrix4 \<Rightarrow> vec3 \<Rightarrow> vec3" where
  "applyLinear m p =
     vadd (vadd (multiplyScalar (col1 m) (vx p)) (multiplyScalar (col2 m) (vy p)))
          (multiplyScalar (col3 m) (vz p))"

definition applyMatrix4 :: "matrix4 \<Rightarrow> vec3 \<Rightarrow> vec3" where
  "applyMatrix4 m p = vadd (applyLinear m p) (trans m)"

definition multiplyMatrices :: "matrix4 \<Rightarrow> matrix4 \<Rightarrow> matrix4" where
  "multiplyMatrices a b =
     Matrix4 (applyLinear a (col1 b)) (applyLinear a (col2 b)) (applyLinear a (col3 b))
             (applyMatrix4 a (trans b))"

text \<open>\<^verbatim>\<open>Matrix4.makeRotationFromEuler\<close>, order XYZ (the library's default).\<close>

definition makeRotationFromEuler :: "vec3 \<Rightarrow> matrix4" where
  "makeRotationFromEuler r =
     (let a = cos (vx r); b = sin (vx r);
          c = cos (vy r); d = sin (vy r);
          e = cos (vz r); f = sin (vz r)
      in Matrix4 (Vector3 (c * e) (a * f + b * e * d) (b * f - a * e * d))
                 (Vector3 (- c * f) (a * e - b * f * d) (b * e + a * f * d))
                 (Vector3 d (- b * c) (a * c))
                 (Vector3 0 0 0))"

text \<open>\<^verbatim>\<open>Matrix4.compose(position, rotation, scale)\<close>: rotate the scaled axes, then translate.\<close>

definition compose :: "vec3 \<Rightarrow> vec3 \<Rightarrow> vec3 \<Rightarrow> matrix4" where
  "compose p r s =
     (let m = makeRotationFromEuler r
      in Matrix4 (multiplyScalar (col1 m) (vx s)) (multiplyScalar (col2 m) (vy s))
                 (multiplyScalar (col3 m) (vz s)) p)"

text \<open>
  \<^verbatim>\<open>Box3.applyMatrix4\<close>: an empty box stays as it is; otherwise the box of the eight
  transformed corners.
\<close>

definition corners :: "box3 \<Rightarrow> vec3 list" where
  "corners b =
     [Vector3 (vx (bmin b)) (vy (bmin b)) (vz (bmin b)),
      Vector3 (vx (bmin b)) (vy (bmin b)) (vz (bmax b)),
      Vector3 (vx (bmin b)) (vy (bmax b)) (vz (bmin b)),
      Vector3 (vx (bmin b)) (vy (bmax b)) (vz (bmax b)),
      Vector3 (vx (bmax b)) (vy (bmin b)) (vz (bmin b)),
      Vector3 (vx (bmax b)) (vy (bmin b)) (vz (bmax b)),
      Vector3 (vx (bmax b)) (vy (bmax b)) (vz (bmin b)),
      Vector3 (vx (bmax b)) (vy (bmax b)) (vz (bmax b))]"

definition box_applyMatrix4 :: "matrix4 \<Rightarrow> box3 \<Rightarrow> box3" where
  "box_applyMatrix4 m b =
     (if isEmpty b then b else setFromPoints (map (applyMatrix4 m) (corners b)))"

section \<open>Scene-graph nodes\<close>

text \<open>
  \<^verbatim>\<open>Object3D\<close>: the fields every node has. Meshes, lights and the camera extend it.
  A node of a loaded asset carries a geometry (its vertex positions) when it is drawable,
  the flag \<^verbatim>\<open>isMesh\<close>, and a reference to its material: materials are shared objects,
  kept in a store indexed by reference, so that two meshes with the same reference share
  one material object.
\<close>

record object3D =
  position :: vec3
  rotation :: vec3
  scale :: vec3
  castShadow :: bool
  receiveShadow :: bool

record node = object3D +
  isMesh :: bool
  geometry :: "vec3 list option"
  material :: nat

datatype object3d = Object3D (props: node) (children: "object3d list")

text \<open>
  \<^verbatim>\<open>Box3.expandByObject\<close>: the world box of a node and its descendants. \<open>w\<close> is the node's
  world matrix; a child's is the parent's times the child's local matrix.
\<close>

definition localMatrix :: "node \<Rightarrow> matrix4" where
  "localMatrix n = compose (position n) (rotation n) (scale n)"

fun expandByObject :: "matrix4 \<Rightarrow> object3d \<Rightarrow> box3 \<Rightarrow> box3" where
  "expandByObject w (Object3D n cs) b =
     fold (\<lambda>c. expandByObject (multiplyMatrices w (localMatrix (props c))) c) cs
       (case geometry n of
          None \<Rightarrow> b
        | Some g \<Rightarrow> union_box b (box_applyMatrix4 w (setFromPoints g)))"

definition setFromObject :: "object3d \<Rightarrow> box3" where
  "setFromObject obj = expandByObject (localMatrix (props obj)) obj EmptyBox"

section \<open>Materials and the traversal of the loaded asset\<close>

text \<open>
  A material object: a field the material type does not have is \<open>None\<close> (JavaScript's
  \<^verbatim>\<open>undefined\<close>). A colour is its hexadecimal value. The store maps a reference to the
  material object it denotes.
\<close>

record mat =
  color :: "nat option"
  metalness :: "real option"
  roughness :: "real option"
  wireframe :: "bool option"

type_synonym store = "nat \<Rightarrow> mat"

text \<open>\<^verbatim>\<open>Set.add\<close>: a set keeps insertion order and ignores a member it already has.\<close>

definition set_add :: "nat \<Rightarrow> nat list \<Rightarrow> nat list" where
  "set_add r ms = (if r \<in> set ms then ms else ms @ [r])"

text \<open>The callback of \<^verbatim>\<open>object.traverse\<close> (main.js, lines 100 to 111), at one node.\<close>

definition visit :: "node \<Rightarrow> store \<times> nat list \<Rightarrow> node \<times> store \<times> nat list" where
  "visit child s =
     (case s of (h, materials) \<Rightarrow>
        if isMesh child then
          (child\<lparr>castShadow := True, receiveShadow := True\<rparr>,
           (if color (h (material child)) = None
            then h(material child := (h (material child))\<lparr>color := Some 0x808080\<rparr>)
            else h),
           set_add (material child) materials)
        else (child, h, materials))"

text \<open>\<^verbatim>\<open>Object3D.traverse\<close>: the node itself, then its children in order.\<close>

fun traverse :: "object3d \<Rightarrow> store \<times> nat list \<Rightarrow> object3d \<times> store \<times> nat list"
  and traverse_children ::
    "object3d list \<Rightarrow> store \<times> nat list \<Rightarrow> object3d list \<times> store \<times> nat list" where
  "traverse (Object3D n cs) s =
     (case visit n s of (n', s1) \<Rightarrow>
        case traverse_children cs s1 of (cs', s2) \<Rightarrow> (Object3D n' cs', s2))"
| "traverse_children [] s = ([], s)"
| "traverse_children (c # cs) s =
     (case traverse c s of (c', s1) \<Rightarrow>
        case traverse_children cs s1 of (cs', s2) \<Rightarrow> (c' # cs', s2))"

section \<open>The control panel\<close>

text \<open>
  A controller of the panel library holds the property it edits, its displayed name, its
  value, for a number its range, and its on-change callback. The callbacks of main.js are
  closures; each is named here by the assignment it makes, with the material reference it
  captured where it captured one.
\<close>

datatype numberHandler =
    AmbientIntensity | MainIntensity | FillIntensity | TopIntensity
  | MaterialMetalness nat | MaterialRoughness nat
  | ModelScale | ModelRotationX | ModelRotationY | ModelRotationZ

datatype colorHandler = MaterialColor nat

datatype booleanHandler = MaterialWireframe nat

datatype controller =
    NumberController string string real real real numberHandler
  | ColorController string string nat colorHandler
  | BooleanController string string bool booleanHandler

record folder =
  title :: string
  controllers :: "controller list"

fun property :: "controller \<Rightarrow> string" where
  "property (NumberController p _ _ _ _ _) = p"
| "property (ColorController p _ _ _) = p"
| "property (BooleanController p _ _ _) = p"

text \<open>The material object a controller's callback assigns to, if it assigns to one.\<close>

fun numberTarget :: "numberHandler \<Rightarrow> nat option" where
  "numberTarget (MaterialMetalness r) = Some r"
| "numberTarget (MaterialRoughness r) = Some r"
| "numberTarget _ = None"

fun target :: "controller \<Rightarrow> nat option" where
  "target (NumberController _ _ _ _ _ h) = numberTarget h"
| "target (ColorController _ _ _ (MaterialColor r)) = Some r"
| "target (BooleanController _ _ _ (MaterialWireframe r)) = Some r"

section \<open>The application state\<close>

record light = object3D +
  lightColor :: nat
  intensity :: real

record camera = object3D +
  fov :: real
  aspect :: real
  near :: real
  far :: real

datatype shadowMapType = BasicShadowMap | PCFShadowMap | PCFSoftShadowMap | VSMShadowMap

record renderer =
  width :: real
  height :: real
  shadowMap_enabled :: bool
  shadowMap_type :: shadowMapType
  rendered :: nat

text \<open>
  The orbit controller: the fields main.js configures, and the controller's own state
  (its target, its damping deltas), which the script never reads: a type parameter.
\<close>

record 's orbitControls =
  enableDamping :: bool
  minPolarAngle :: real
  maxPolarAngle :: real
  minDistance :: real
  maxDistance :: real
  enableZoom :: bool
  zoomSpeed :: real
  internal :: 's

text \<open>The ground plane: a mesh of a \<^verbatim>\<open>PlaneGeometry\<close> with a material of its own.\<close>

record planeMesh = object3D +
  planeWidth :: real
  planeHeight :: real
  planeMaterial :: mat

text \<open>
  The children of the scene, in the order they were added. The lights and the loaded
  root are objects that callbacks hold too, so the scene lists them by name and the state
  keeps the objects; the ground plane is held by the scene alone.
\<close>

datatype child = AmbientLight | MainLight | FillLight | TopLight | Ground planeMesh | LoadedObject

datatype consoleEntry = PercentLoaded real | PercentNotFinite | ErrorLoadingModel string

datatype loadStatus = Pending | Succeeded | Failed

record 's app =
  scene_background :: nat
  scene_children :: "child list"
  camera :: camera
  renderer :: renderer
  controls :: "'s orbitControls"
  ambientLight :: light
  mainLight :: light
  fillLight :: light
  topLight :: light
  gui :: "folder list"
  object :: "object3d option"
  materials :: store
  console :: "consoleEntry list"
  loader :: loadStatus

section \<open>Bootstrap (main.js, lines 6 to 83)\<close>

definition newObject3D :: object3D where
  "newObject3D =
     \<lparr>position = Vector3 0 0 0, rotation = Vector3 0 0 0, scale = Vector3 1 1 1,
      castShadow = False, receiveShadow = False\<rparr>"

definition AmbientLight_new :: "nat \<Rightarrow> real \<Rightarrow> light" where
  "AmbientLight_new c i = object3D.extend newObject3D (light.fields c i)"

definition DirectionalLight_new :: "nat \<Rightarrow> real \<Rightarrow> light" where
  "DirectionalLight_new c i =
     object3D.extend (newObject3D\<lparr>position := Vector3 0 1 0\<rparr>) (light.fields c i)"

definition PerspectiveCamera_new :: "real \<Rightarrow> real \<Rightarrow> real \<Rightarrow> real \<Rightarrow> camera" where
  "PerspectiveCamera_new f a n fa = object3D.extend newObject3D (camera.fields f a n fa)"

text \<open>\<^verbatim>\<open>new WebGLRenderer()\<close>, then \<^verbatim>\<open>setSize\<close>: shadow mapping is off by default.\<close>

definition WebGLRenderer_new :: renderer where
  "WebGLRenderer_new =
     \<lparr>width = 300, height = 150, shadowMap_enabled = False, shadowMap_type = PCFShadowMap,
      rendered = 0\<rparr>"

definition setSize :: "real \<Rightarrow> real \<Rightarrow> renderer \<Rightarrow> renderer" where
  "setSize w h r = r\<lparr>width := w, height := h\<rparr>"

definition lightingFolder :: "real \<Rightarrow> real \<Rightarrow> real \<Rightarrow> real \<Rightarrow> folder" where
  "lightingFolder ambientIntensity mainIntensity fillIntensity topIntensity =
     \<lparr>title = ''Lighting'',
      controllers =
        [NumberController ''ambientIntensity'' ''Ambient Light'' ambientIntensity 0 1
           AmbientIntensity,
         NumberController ''mainIntensity'' ''Main Light'' mainIntensity 0 1 MainIntensity,
         NumberController ''fillIntensity'' ''Fill Light'' fillIntensity 0 1 FillIntensity,
         NumberController ''topIntensity'' ''Top Light'' topIntensity 0 1 TopIntensity]\<rparr>"

text \<open>
  The state the script has built when it reaches \<^verbatim>\<open>loader.load\<close>, for a window of the
  given inner size and an orbit controller whose own state starts as \<open>s0\<close>. The aspect
  of the camera is a quotient of reals; no property below reads it, so a window of height
  0, where JavaScript's quotient is not finite, is not told apart.
\<close>

definition bootstrap :: "real \<Rightarrow> real \<Rightarrow> 's \<Rightarrow> 's app" where
  "bootstrap innerWidth innerHeight s0 =
     (let camera0 = PerspectiveCamera_new 75 (innerWidth / innerHeight) 0.1 1000;
          camera1 = camera0\<lparr>position := (position camera0)\<lparr>vz := 5\<rparr>\<rparr>;
          renderer0 = setSize innerWidth innerHeight WebGLRenderer_new;
          controls0 =
            \<lparr>enableDamping = True, minPolarAngle = 0, maxPolarAngle = pi / 2,
             minDistance = 2, maxDistance = 20, enableZoom = True, zoomSpeed = 0.5,
             internal = s0\<rparr>;
          ambient = AmbientLight_new 0xffffff 0.4;
          main0 = DirectionalLight_new 0xffffff 0.8;
          main1 = main0\<lparr>position := Vector3 5 10 7\<rparr>;
          main2 = main1\<lparr>castShadow := True\<rparr>;
          fill = (DirectionalLight_new 0xffffff 0.4)\<lparr>position := Vector3 (- 5) 8 (- 7)\<rparr>;
          top = (DirectionalLight_new 0xffffff 0.3)\<lparr>position := Vector3 0 10 0\<rparr>;
          renderer1 = renderer0\<lparr>shadowMap_enabled := True\<rparr>;
          renderer2 = renderer1\<lparr>shadowMap_type := PCFSoftShadowMap\<rparr>
      in \<lparr>scene_background = 0xffffff,
          scene_children = [AmbientLight, MainLight, FillLight, TopLight],
          camera = camera1,
          renderer = renderer2,
          controls = controls0,
          ambientLight = ambient,
          mainLight = main2,
          fillLight = fill,
          topLight = top,
          gui = [lightingFolder (intensity ambient) (intensity main2) (intensity fill)
                   (intensity top)],
          object = None,
          materials = (\<lambda>_. \<lparr>color = None, metalness = None, roughness = None,
                             wireframe = None\<rparr>),
          console = [],
          loader = Pending\<rparr>)"

section \<open>The render loop and the resize listener (main.js, lines 195 to 213)\<close>

text \<open>
  \<^verbatim>\<open>controls.update()\<close> is the orbit controller's: it reads and writes the controller and the
  camera it was given. What it computes is the library's, so it is a parameter \<open>upd\<close> of
  every function that calls it. The properties below hold for any \<open>upd\<close>; the one on the
  camera distance is stated for the library's update as well (\<open>orbitUpdate\<close> below).
\<close>

definition update_controls ::
  "('s orbitControls \<Rightarrow> camera \<Rightarrow> 's orbitControls \<times> camera) \<Rightarrow> 's app \<Rightarrow> 's app" where
  "update_controls upd st =
     (case upd (controls st) (camera st) of (c, cam) \<Rightarrow> st\<lparr>controls := c, camera := cam\<rparr>)"

text \<open>
  One run of \<^verbatim>\<open>animate\<close>: it asks for the next frame, updates the controls and draws.
  Drawing changes nothing the script holds; the model counts the draw calls.
\<close>

definition animate ::
  "('s orbitControls \<Rightarrow> camera \<Rightarrow> 's orbitControls \<times> camera) \<Rightarrow> 's app \<Rightarrow> 's app" where
  "animate upd st =
     (let st1 = update_controls upd st
      in st1\<lparr>renderer := (renderer st1)\<lparr>rendered := Suc (rendered (renderer st1))\<rparr>\<rparr>)"

definition onResize :: "real \<Rightarrow> real \<Rightarrow> 's app \<Rightarrow> 's app" where
  "onResize innerWidth innerHeight st =
     (let st1 = st\<lparr>camera := (camera st)\<lparr>aspect := innerWidth / innerHeight\<rparr>\<rparr>
      in st1\<lparr>renderer := setSize innerWidth innerHeight (renderer st1)\<rparr>)"

text \<open>The script, up to its last line: the state before the first event.\<close>

definition main ::
  "('s orbitControls \<Rightarrow> camera \<Rightarrow> 's orbitControls \<times> camera) \<Rightarrow> real \<Rightarrow> real \<Rightarrow> 's \<Rightarrow> 's app"
  where
  "main upd innerWidth innerHeight s0 = animate upd (bootstrap innerWidth innerHeight s0)"

section \<open>The on-change callbacks\<close>

definition setMaterial :: "nat \<Rightarrow> (mat \<Rightarrow> mat) \<Rightarrow> 's app \<Rightarrow> 's app" where
  "setMaterial r f st = st\<lparr>materials := (materials st)(r := f (materials st r))\<rparr>"

definition setObject :: "(node \<Rightarrow> node) \<Rightarrow> 's app \<Rightarrow> 's app" where
  "setObject f st =
     (case object st of
        None \<Rightarrow> st
      | Some (Object3D n cs) \<Rightarrow> st\<lparr>object := Some (Object3D (f n) cs)\<rparr>)"

fun onChangeNumber :: "numberHandler \<Rightarrow> real \<Rightarrow> 's app \<Rightarrow> 's app" where
  "onChangeNumber AmbientIntensity v st = st\<lparr>ambientLight := (ambientLight st)\<lparr>intensity := v\<rparr>\<rparr>"
| "onChangeNumber MainIntensity v st = st\<lparr>mainLight := (mainLight st)\<lparr>intensity := v\<rparr>\<rparr>"
| "onChangeNumber FillIntensity v st = st\<lparr>fillLight := (fillLight st)\<lparr>intensity := v\<rparr>\<rparr>"
| "onChangeNumber TopIntensity v st = st\<lparr>topLight := (topLight st)\<lparr>intensity := v\<rparr>\<rparr>"
| "onChangeNumber (MaterialMetalness r) v st = setMaterial r (\<lambda>m. m\<lparr>metalness := Some v\<rparr>) st"
| "onChangeNumber (MaterialRoughness r) v st = setMaterial r (\<lambda>m. m\<lparr>roughness := Some v\<rparr>) st"
| "onChangeNumber ModelScale v st = setObject (\<lambda>n. n\<lparr>scale := Vector3 v v v\<rparr>) st"
| "onChangeNumber ModelRotationX v st = setObject (\<lambda>n. n\<lparr>rotation := (rotation n)\<lparr>vx := v\<rparr>\<rparr>) st"
| "onChangeNumber ModelRotationY v st = setObject (\<lambda>n. n\<lparr>rotation := (rotation n)\<lparr>vy := v\<rparr>\<rparr>) st"
| "onChangeNumber ModelRotationZ v st = setObject (\<lambda>n. n\<lparr>rotation := (rotation n)\<lparr>vz := v\<rparr>\<rparr>) st"

fun onChangeColor :: "colorHandler \<Rightarrow> nat \<Rightarrow> 's app \<Rightarrow> 's app" where
  "onChangeColor (MaterialColor r) v st = setMaterial r (\<lambda>m. m\<lparr>color := Some v\<rparr>) st"

fun onChangeBoolean :: "booleanHandler \<Rightarrow> bool \<Rightarrow> 's app \<Rightarrow> 's app" where
  "onChangeBoolean (MaterialWireframe r) v st = setMaterial r (\<lambda>m. m\<lparr>wireframe := Some v\<rparr>) st"

section \<open>The loader callbacks (main.js, lines 88 to 193)\<close>

text \<open>
  What the loader hands to the success callback: the root of the asset's scene and the
  material objects its meshes refer to.
\<close>

record gltf =
  scene :: object3d
  assetMaterials :: store

text \<open>\<^verbatim>\<open>object.position.sub(center)\<close>\<close>

fun position_sub :: "object3d \<Rightarrow> vec3 \<Rightarrow> object3d" where
  "position_sub (Object3D n cs) c = Object3D (n\<lparr>position := vsub (position n) c\<rparr>) cs"

text \<open>
  The local \<^verbatim>\<open>box\<close> of the callback. It is assigned once (line 94), from the root as
  the loader delivered it, and read twice: for the centre (line 95) and for the size
  (line 182).
\<close>

definition onLoad_box :: "gltf \<Rightarrow> box3" where
  "onLoad_box g = setFromObject (scene g)"

text \<open>
  \<^verbatim>\<open>material.color.getHex()\<close>. The traversal has given every collected material a colour
  (lemma \<open>traverse_color\<close> below), so the callback never reads the colour of a material
  without one.
\<close>

definition getHex :: "nat option \<Rightarrow> nat" where
  "getHex c = (case c of Some h \<Rightarrow> h | None \<Rightarrow> 0)"

text \<open>
  The body of \<^verbatim>\<open>materials.forEach\<close> (lines 127 to 155). \<^verbatim>\<open>Set.forEach\<close> passes the member
  itself as the callback's second argument, so \<^verbatim>\<open>index + 1\<close> is the text of an object
  followed by 1, for every material.
\<close>

definition matFolder :: "store \<Rightarrow> nat \<Rightarrow> folder" where
  "matFolder h r =
     (let m = h r;
          matParams_color = getHex (color m);
          matParams_metalness = (case metalness m of Some v \<Rightarrow> v | None \<Rightarrow> 0.2);
          matParams_roughness = (case roughness m of Some v \<Rightarrow> v | None \<Rightarrow> 0.8);
          matParams_wireframe = (case wireframe m of Some v \<Rightarrow> v | None \<Rightarrow> False)
      in \<lparr>title = ''Material [object Object]1'',
          controllers =
            [ColorController ''color'' ''color'' matParams_color (MaterialColor r)]
            @ (if metalness m \<noteq> None
               then [NumberController ''metalness'' ''metalness'' matParams_metalness 0 1
                       (MaterialMetalness r)]
               else [])
            @ (if roughness m \<noteq> None
               then [NumberController ''roughness'' ''roughness'' matParams_roughness 0 1
                       (MaterialRoughness r)]
               else [])
            @ [BooleanController ''wireframe'' ''wireframe'' matParams_wireframe
                 (MaterialWireframe r)]\<rparr>)"

definition modelFolder :: folder where
  "modelFolder =
     \<lparr>title = ''Model'',
      controllers =
        [NumberController ''scale'' ''scale'' 1 0.1 2 ModelScale,
         NumberController ''rotationX'' ''rotationX'' 0 0 (pi * 2) ModelRotationX,
         NumberController ''rotationY'' ''rotationY'' 0 0 (pi * 2) ModelRotationY,
         NumberController ''rotationZ'' ''rotationZ'' 0 0 (pi * 2) ModelRotationZ]\<rparr>"

text \<open>The ground plane (lines 113 to 123).\<close>

definition groundMaterial :: mat where
  "groundMaterial =
     \<lparr>color = Some 0xffffff, metalness = Some 0.1, roughness = Some 0.9,
      wireframe = Some False\<rparr>"

definition ground :: planeMesh where
  "ground =
     (let ground0 = object3D.extend newObject3D (planeMesh.fields 50 50 groundMaterial);
          ground1 = ground0\<lparr>rotation := (rotation ground0)\<lparr>vx := - pi / 2\<rparr>\<rparr>;
          ground2 = ground1\<lparr>position := (position ground1)\<lparr>vy := - 2\<rparr>\<rparr>
      in ground2\<lparr>receiveShadow := True\<rparr>)"

text \<open>
  The success callback up to line 184: everything but the closing \<^verbatim>\<open>controls.update()\<close>.
  \<^verbatim>\<open>scene.add\<close> appends (the ground and the root are new to the scene).
\<close>

definition onLoad_assemble :: "gltf \<Rightarrow> 's app \<Rightarrow> 's app" where
  "onLoad_assemble g st =
     (let object0 = scene g;
          box = onLoad_box g;
          center = getCenter box;
          object1 = position_sub object0 center;
          (object2, h, materialSet) = traverse object1 (assetMaterials g, []);
          st1 = st\<lparr>scene_children := scene_children st @ [Ground ground]\<rparr>;
          st2 = st1\<lparr>gui := gui st1 @ map (matFolder h) materialSet\<rparr>;
          st3 = st2\<lparr>gui := gui st2 @ [modelFolder]\<rparr>;
          st4 = st3\<lparr>scene_children := scene_children st3 @ [LoadedObject],
                    object := Some object2, materials := h\<rparr>;
          size = getSize box;
          maxDim = max (max (vx size) (vy size)) (vz size)
      in st4\<lparr>camera := (camera st4)\<lparr>position := (position (camera st4))\<lparr>vz := maxDim * 2\<rparr>\<rparr>\<rparr>)"

definition onLoad ::
  "('s orbitControls \<Rightarrow> camera \<Rightarrow> 's orbitControls \<times> camera) \<Rightarrow> gltf \<Rightarrow> 's app \<Rightarrow> 's app"
  where
  "onLoad upd g st = update_controls upd (onLoad_assemble g st)"

text \<open>
  The progress callback logs a percentage. With a total of 0 the JavaScript quotient is
  infinite or not a number, which is logged as such.
\<close>

definition onProgress :: "real \<Rightarrow> real \<Rightarrow> 's app \<Rightarrow> 's app" where
  "onProgress loaded xhr_total st =
     st\<lparr>console := console st @
        [if xhr_total = 0 then PercentNotFinite else PercentLoaded (loaded / xhr_total * 100)]\<rparr>"

definition onError :: "string \<Rightarrow> 's app \<Rightarrow> 's app" where
  "onError error st = st\<lparr>console := console st @ [ErrorLoadingModel error]\<rparr>"

section \<open>Events\<close>

text \<open>
  Everything that runs after the script's last line runs from an event: a frame, a
  resize, pointer input (the orbit controller's listeners change its own state and update
  the camera), a change of a control of the panel, and the loader's progress, success and
  failure. The loader calls the success or the failure callback once: \<open>loader\<close> is
  \<open>Pending\<close> until then. A control emits a change only if the panel has it, and a number
  control only values of its range.
\<close>

datatype 's event =
    Frame
  | Resize real real
  | Pointer "'s \<Rightarrow> 's"
  | NumberChange numberHandler real
  | ColorChange colorHandler nat
  | BooleanChange booleanHandler bool
  | Progress real real
  | LoadSuccess gltf
  | LoadError string

fun emitsNumber :: "numberHandler \<Rightarrow> real \<Rightarrow> controller \<Rightarrow> bool" where
  "emitsNumber h v (NumberController _ _ _ lo hi h') = (h' = h \<and> lo \<le> v \<and> v \<le> hi)"
| "emitsNumber h v _ = False"

fun emitsColor :: "colorHandler \<Rightarrow> controller \<Rightarrow> bool" where
  "emitsColor h (ColorController _ _ _ h') = (h' = h)"
| "emitsColor h _ = False"

fun emitsBoolean :: "booleanHandler \<Rightarrow> controller \<Rightarrow> bool" where
  "emitsBoolean h (BooleanController _ _ _ h') = (h' = h)"
| "emitsBoolean h _ = False"

definition allControllers :: "'s app \<Rightarrow> controller list" where
  "allControllers st = concat (map controllers (gui st))"

fun step ::
  "('s orbitControls \<Rightarrow> camera \<Rightarrow> 's orbitControls \<times> camera) \<Rightarrow> 's app \<Rightarrow> 's event \<Rightarrow> 's app"
  where
  "step upd st Frame = animate upd st"
| "step upd st (Resize w h) = onResize w h st"
| "step upd st (Pointer f) =
     update_controls upd (st\<lparr>controls := (controls st)\<lparr>internal := f (internal (controls st))\<rparr>\<rparr>)"
| "step upd st (NumberChange h v) =
     (if list_ex (emitsNumber h v) (allControllers st) then onChangeNumber h v st else st)"
| "step upd st (ColorChange h v) =
     (if list_ex (emitsColor h) (allControllers st) then onChangeColor h v st else st)"
| "step upd st (BooleanChange h v) =
     (if list_ex (emitsBoolean h) (allControllers st) then onChangeBoolean h v st else st)"
| "step upd st (Progress loaded xhr_total) =
     (if loader st = Pending then onProgress loaded xhr_total st else st)"
| "step upd st (LoadSuccess g) =
     (if loader st = Pending then (onLoad upd g st)\<lparr>loader := Succeeded\<rparr> else st)"
| "step upd st (LoadError e) =
     (if loader st = Pending then (onError e st)\<lparr>loader := Failed\<rparr> else st)"

definition run ::
  "('s orbitControls \<Rightarrow> camera \<Rightarrow> 's orbitControls \<times> camera) \<Rightarrow> 's app \<Rightarrow> 's event list \<Rightarrow> 's app"
  where
  "run upd st es = foldl (step upd) st es"

section \<open>The orbit controller's update\<close>

text \<open>
  Modelled from the library: \<^verbatim>\<open>OrbitControls.update\<close>, for a controller that has had no
  pointer input, so that its target is the origin and it has no rotation, zoom or pan
  pending. It reads the camera's offset from the target in spherical coordinates, restricts
  the polar angle to \<^verbatim>\<open>[minPolarAngle, maxPolarAngle]\<close> and, in \<^verbatim>\<open>makeSafe\<close>, to
  \<open>[10\<^sup>-\<^sup>6, \<pi> - 10\<^sup>-\<^sup>6]\<close>, restricts the radius to
  \<^verbatim>\<open>[minDistance, maxDistance]\<close>, and puts the camera at the offset so restricted. main.js
  sets no azimuth limits, so the azimuth is left as it is. The orientation \<^verbatim>\<open>lookAt\<close> gives
  the camera is not recorded. \<^verbatim>\<open>atan2\<close> is \<^verbatim>\<open>Math.atan2\<close>.
\<close>

definition atan2 :: "real \<Rightarrow> real \<Rightarrow> real" where
  "atan2 a b =
     (if 0 < b then arctan (a / b)
      else if b < 0 then (if 0 \<le> a then arctan (a / b) + pi else arctan (a / b) - pi)
      else if 0 < a then pi / 2
      else if a < 0 then - pi / 2
      else 0)"

record spherical =
  radius :: real
  phi :: real
  theta :: real

definition setFromVector3 :: "vec3 \<Rightarrow> spherical" where
  "setFromVector3 v =
     (let r = sqrt (vx v * vx v + vy v * vy v + vz v * vz v)
      in if r = 0 then \<lparr>radius = r, phi = 0, theta = 0\<rparr>
         else \<lparr>radius = r, phi = arccos (max (- 1) (min 1 (vy v / r))),
               theta = atan2 (vx v) (vz v)\<rparr>)"

definition makeSafe :: "spherical \<Rightarrow> spherical" where
  "makeSafe s = s\<lparr>phi := max 0.000001 (min (pi - 0.000001) (phi s))\<rparr>"

definition setFromSpherical :: "spherical \<Rightarrow> vec3" where
  "setFromSpherical s =
     (let sinPhiRadius = sin (phi s) * radius s
      in Vector3 (sinPhiRadius * sin (theta s)) (cos (phi s) * radius s)
           (sinPhiRadius * cos (theta s)))"

definition orbitUpdate :: "unit orbitControls \<Rightarrow> camera \<Rightarrow> unit orbitControls \<times> camera" where
  "orbitUpdate c cam =
     (let s0 = setFromVector3 (position cam);
          s1 = s0\<lparr>phi := max (minPolarAngle c) (min (maxPolarAngle c) (phi s0))\<rparr>;
          s2 = makeSafe s1;
          s3 = s2\<lparr>radius := max (minDistance c) (min (maxDistance c) (radius s2))\<rparr>
      in (c, cam\<lparr>position := setFromSpherical s3\<rparr>))"

section \<open>Notions the properties are stated with\<close>

text \<open>A translated box and a matrix followed by a translation.\<close>

definition translateBox :: "vec3 \<Rightarrow> box3 \<Rightarrow> box3" where
  "translateBox d b =
     (case b of EmptyBox \<Rightarrow> EmptyBox | Box3 mn mx \<Rightarrow> Box3 (vadd mn d) (vadd mx d))"

definition translateMatrix :: "vec3 \<Rightarrow> matrix4 \<Rightarrow> matrix4" where
  "translateMatrix d m = Matrix4 (col1 m) (col2 m) (col3 m) (vadd (trans m) d)"

text \<open>The nodes of a tree, root first, and the material references of its meshes.\<close>

fun nodes :: "object3d \<Rightarrow> node list" where
  "nodes (Object3D n cs) = n # concat (map nodes cs)"

definition meshMaterials :: "object3d \<Rightarrow> nat list" where
  "meshMaterials obj = map material (filter isMesh (nodes obj))"

text \<open>The sections of a panel with a control whose callback assigns to the material \<open>r\<close>.\<close>

definition sectionsFor :: "nat \<Rightarrow> folder list \<Rightarrow> folder list" where
  "sectionsFor r fs = filter (\<lambda>f. list_ex (\<lambda>c. target c = Some r) (controllers f)) fs"

definition controlsNamed :: "string \<Rightarrow> folder \<Rightarrow> controller list" where
  "controlsNamed p f = filter (\<lambda>c. property c = p) (controllers f)"

fun isGround :: "child \<Rightarrow> bool" where
  "isGround (Ground _) = True"
| "isGround _ = False"

definition intensities :: "'s app \<Rightarrow> real \<times> real \<times> real \<times> real" where
  "intensities st =
     (intensity (ambientLight st), intensity (mainLight st), intensity (fillLight st),
      intensity (topLight st))"

text \<open>The lights the script adds at bootstrap.\<close>

definition lights :: "child list" where
  "lights = [AmbientLight, MainLight, FillLight, TopLight]"

text \<open>
  The values the success callback computes from an asset: the root after centring, the
  root, the material store and the material set after the traversal.
\<close>

definition centred :: "gltf \<Rightarrow> object3d" where
  "centred g = position_sub (scene g) (getCenter (onLoad_box g))"

definition loadedRoot :: "gltf \<Rightarrow> object3d" where
  "loadedRoot g = fst (traverse (centred g) (assetMaterials g, []))"

definition loadedStore :: "gltf \<Rightarrow> store" where
  "loadedStore g = fst (snd (traverse (centred g) (assetMaterials g, [])))"

definition materialSet :: "gltf \<Rightarrow> nat list" where
  "materialSet g = snd (snd (traverse (centred g) (assetMaterials g, [])))"

definition maxDim :: "box3 \<Rightarrow> real" where
  "maxDim b = max (max (vx (getSize b)) (vy (getSize b))) (vz (getSize b))"

text \<open>
  The two shapes of a state: as the bootstrap left the scene and the panel, and as a
  successful load leaves them.
\<close>

definition unloaded :: "'s app \<Rightarrow> bool" where
  "unloaded st \<longleftrightarrow>
     scene_children st = lights \<and> gui st = [lightingFolder 0.4 0.8 0.4 0.3] \<and> object st = None"

definition assembled :: "'s app \<Rightarrow> bool" where
  "assembled st \<longleftrightarrow>
     scene_children st = lights @ [Ground ground, LoadedObject] \<and> object st \<noteq> None
     \<and> (\<exists>g. gui st = lightingFolder 0.4 0.8 0.4 0.3
                 # map (matFolder (loadedStore g)) (materialSet g) @ [modelFolder])"

definition inv :: "'s app \<Rightarrow> bool" where
  "inv st \<longleftrightarrow> (if loader st = Succeeded then assembled st else unloaded st)"

text \<open>
  Every mesh of a tree whose material reference is \<open>r\<close> reads, through the store \<open>h\<close>, a
  material with the property \<open>P\<close>; and a step from \<open>st\<close> to \<open>st'\<close> keeps every material
  object but \<open>r\<close>, the loaded root and the children of the scene (the ground plane and
  its material among them).
\<close>

definition seenBy :: "object3d \<Rightarrow> nat \<Rightarrow> store \<Rightarrow> (mat \<Rightarrow> bool) \<Rightarrow> bool" where
  "seenBy tree r h P =
     list_all (\<lambda>n. isMesh n \<and> material n = r \<longrightarrow> P (h (material n))) (nodes tree)"

definition othersKept :: "nat \<Rightarrow> 's app \<Rightarrow> 's app \<Rightarrow> bool" where
  "othersKept r st st' \<longleftrightarrow>
     (\<forall>r'. r' \<noteq> r \<longrightarrow> materials st' r' = materials st r')
     \<and> object st' = object st \<and> scene_children st' = scene_children st"

text \<open>
  The camera and the controller as the bootstrap leaves them, for a controller without
  pointer input: the camera at \<open>(0, 0, 5)\<close>, the limits as main.js sets them.
\<close>

definition atRest :: "unit app \<Rightarrow> bool" where
  "atRest st \<longleftrightarrow>
     position (camera st) = Vector3 0 0 5
     \<and> minPolarAngle (controls st) = 0 \<and> maxPolarAngle (controls st) = pi / 2
     \<and> minDistance (controls st) = 2 \<and> maxDistance (controls st) = 20"

section \<open>An asset for the worked examples\<close>

text \<open>
  A group at \<open>(1, 2, 3)\<close> with three meshes; the first two share material 0, which has
  every field, and the third has material 1, which has none. \<open>noUpdate\<close> is a controller
  update that changes nothing.
\<close>

definition meshNode :: "vec3 \<Rightarrow> vec3 list \<Rightarrow> nat \<Rightarrow> node" where
  "meshNode p g r =
     object3D.extend (newObject3D\<lparr>position := p\<rparr>) (node.fields True (Some g) r)"

definition groupNode :: "vec3 \<Rightarrow> node" where
  "groupNode p = object3D.extend (newObject3D\<lparr>position := p\<rparr>) (node.fields False None 0)"

definition standardMaterial :: mat where
  "standardMaterial =
     \<lparr>color = Some 0xff0000, metalness = Some 1, roughness = Some 0.5, wireframe = Some False\<rparr>"

definition bareMaterial :: mat where
  "bareMaterial = \<lparr>color = None, metalness = None, roughness = None, wireframe = None\<rparr>"

definition house :: gltf where
  "house =
     \<lparr>scene =
        Object3D (groupNode (Vector3 1 2 3))
          [Object3D (meshNode (Vector3 0 0 0) [Vector3 0 0 0, Vector3 2 4 6] 0) [],
           Object3D (meshNode (Vector3 4 0 0) [Vector3 0 0 0, Vector3 2 1 1] 0) [],
           Object3D (meshNode (Vector3 0 0 0) [Vector3 (- 1) 0 0] 1) []],
      assetMaterials = (\<lambda>r. if r = 0 then standardMaterial else bareMaterial)\<rparr>"

text \<open>A second asset: one mesh, 12 by 4 by 6.\<close>

definition hall :: gltf where
  "hall =
     \<lparr>scene = Object3D (meshNode (Vector3 0 0 0) [Vector3 0 0 0, Vector3 12 4 6] 0) [],
      assetMaterials = (\<lambda>r. standardMaterial)\<rparr>"

definition noUpdate :: "unit orbitControls \<Rightarrow> camera \<Rightarrow> unit orbitControls \<times> camera" where
  "noUpdate c cam = (c, cam)"

section \<open>Lemmas on boxes and their translation\<close>

lemmas vec_defs = Vector3_def vadd_def vsub_def multiplyScalar_def vmin_def vmax_def

lemma translateBox_simps [simp]:
  "translateBox d EmptyBox = EmptyBox"
  "translateBox d (Box3 mn mx) = Box3 (vadd mn d) (vadd mx d)"
  by (simp_all add: translateBox_def)

lemma isEmpty_translateBox [simp]: "isEmpty (translateBox d b) = isEmpty b"
  by (cases b) (simp_all add: vec_defs)

lemma expandByPoint_translate:
  "expandByPoint (vadd p d) (translateBox d b) = translateBox d (expandByPoint p b)"
  by (cases b) (simp_all add: vec_defs min_add_distrib_left max_add_distrib_left)

lemma fold_expandByPoint_translate:
  "fold expandByPoint (map (\<lambda>p. vadd p d) ps) (translateBox d b)
   = translateBox d (fold expandByPoint ps b)"
  by (induction ps arbitrary: b) (simp_all add: expandByPoint_translate)

lemma setFromPoints_translate:
  "setFromPoints (map (\<lambda>p. vadd p d) ps) = translateBox d (setFromPoints ps)"
  using fold_expandByPoint_translate [of d ps EmptyBox] by (simp add: setFromPoints_def)

lemma union_box_translate:
  "union_box (translateBox d a) (translateBox d b) = translateBox d (union_box a b)"
  by (cases a; cases b) (simp_all add: vec_defs min_add_distrib_left max_add_distrib_left)

lemma applyMatrix4_translate:
  "applyMatrix4 (translateMatrix d m) p = vadd (applyMatrix4 m p) d"
  by (simp add: applyMatrix4_def applyLinear_def translateMatrix_def vec_defs)

lemma expandByPoint_proper:
  "(isEmpty b \<longrightarrow> b = EmptyBox) \<Longrightarrow> \<not> isEmpty (expandByPoint p b)"
  by (cases b) (auto simp: vec_defs)

lemma fold_expandByPoint_proper:
  "(isEmpty b \<longrightarrow> b = EmptyBox)
   \<Longrightarrow> isEmpty (fold expandByPoint ps b) \<longrightarrow> fold expandByPoint ps b = EmptyBox"
proof (induction ps arbitrary: b)
  case Nil
  then show ?case by simp
next
  case (Cons p ps)
  from Cons.prems have "\<not> isEmpty (expandByPoint p b)" by (rule expandByPoint_proper)
  then show ?case using Cons.IH [of "expandByPoint p b"] by simp
qed

lemma setFromPoints_proper: "isEmpty (setFromPoints ps) \<Longrightarrow> setFromPoints ps = EmptyBox"
  using fold_expandByPoint_proper [of EmptyBox ps] by (simp add: setFromPoints_def)

lemma box_applyMatrix4_translate:
  "box_applyMatrix4 (translateMatrix d m) (setFromPoints g)
   = translateBox d (box_applyMatrix4 m (setFromPoints g))"
proof (cases "isEmpty (setFromPoints g)")
  case True
  then have "setFromPoints g = EmptyBox" by (rule setFromPoints_proper)
  then show ?thesis by (simp add: box_applyMatrix4_def)
next
  case False
  have "map (applyMatrix4 (translateMatrix d m)) (corners (setFromPoints g))
        = map (\<lambda>p. vadd p d) (map (applyMatrix4 m) (corners (setFromPoints g)))"
    by (simp add: applyMatrix4_translate)
  with False show ?thesis
    by (simp only: box_applyMatrix4_def setFromPoints_translate if_False)
qed

lemma multiplyMatrices_translate:
  "multiplyMatrices (translateMatrix d w) l = translateMatrix d (multiplyMatrices w l)"
  by (simp add: multiplyMatrices_def translateMatrix_def applyMatrix4_def applyLinear_def vec_defs)

lemma expandByObject_translate:
  "expandByObject (translateMatrix d w) obj (translateBox d b)
   = translateBox d (expandByObject w obj b)"
proof (induction w obj b arbitrary: rule: expandByObject.induct)
  case (1 w n cs b)
  define b0 where "b0 = (case geometry n of None \<Rightarrow> b
     | Some g \<Rightarrow> union_box b (box_applyMatrix4 w (setFromPoints g)))"
  have start: "(case geometry n of None \<Rightarrow> translateBox d b
     | Some g \<Rightarrow> union_box (translateBox d b) (box_applyMatrix4 (translateMatrix d w) (setFromPoints g)))
     = translateBox d b0"
    by (simp add: b0_def box_applyMatrix4_translate union_box_translate split: option.split)
  have "fold (\<lambda>c. expandByObject (multiplyMatrices (translateMatrix d w) (localMatrix (props c))) c) cs'
          (translateBox d b')
        = translateBox d (fold (\<lambda>c. expandByObject (multiplyMatrices w (localMatrix (props c))) c) cs' b')"
    if "set cs' \<subseteq> set cs" for cs' b'
    using that
  proof (induction cs' arbitrary: b')
    case Nil
    then show ?case by simp
  next
    case (Cons c cs')
    then have "c \<in> set cs" by simp
    from "1.IH" [OF this] Cons show ?case
      by (simp add: multiplyMatrices_translate)
  qed
  from this [of cs b0] start show ?case
    by (simp add: b0_def)
qed

lemma localMatrix_position:
  "localMatrix (n\<lparr>position := vsub (position n) c\<rparr>)
   = translateMatrix (vsub (Vector3 0 0 0) c) (localMatrix n)"
  by (simp add: localMatrix_def compose_def translateMatrix_def Let_def vec_defs)

lemma expandByObject_props:
  "expandByObject w (Object3D n cs) b = expandByObject w (Object3D n' cs) b" if "geometry n = geometry n'"
  using that by simp

lemma setFromObject_position_sub:
  "setFromObject (position_sub obj c) = translateBox (vsub (Vector3 0 0 0) c) (setFromObject obj)"
proof (cases obj)
  case (Object3D n cs)
  have "expandByObject (translateMatrix (vsub (Vector3 0 0 0) c) (localMatrix n)) (Object3D n cs)
          (translateBox (vsub (Vector3 0 0 0) c) EmptyBox)
        = translateBox (vsub (Vector3 0 0 0) c) (expandByObject (localMatrix n) (Object3D n cs) EmptyBox)"
    by (rule expandByObject_translate)
  then show ?thesis
    by (simp add: Object3D setFromObject_def localMatrix_position)
qed

lemma getSize_translateBox: "getSize (translateBox d b) = getSize b"
  by (cases b) (simp_all add: getSize_def vec_defs)

lemma getCenter_centered:
  "getCenter (translateBox (vsub (Vector3 0 0 0) (getCenter b)) b) = Vector3 0 0 0"
  by (cases b) (simp_all add: getCenter_def vec_defs)

section \<open>Lemmas on the traversal\<close>

lemma visit_set:
  "snd (snd (visit n s)) = (if isMesh n then set_add (material n) (snd s) else snd s)"
  by (cases s) (simp add: visit_def)

lemma set_set_add: "set (set_add r ms) = insert r (set ms)"
  by (auto simp: set_add_def)

lemma distinct_set_add: "distinct ms \<Longrightarrow> distinct (set_add r ms)"
  by (simp add: set_add_def)

lemma meshMaterials_Object3D:
  "meshMaterials (Object3D n cs)
   = (if isMesh n then [material n] else []) @ concat (map meshMaterials cs)"
  unfolding meshMaterials_def by (simp add: filter_concat map_concat comp_def)

lemma traverse_snd:
  "visit n s = (n', s1) \<Longrightarrow> snd (traverse (Object3D n cs) s) = snd (traverse_children cs s1)"
  by (simp split: prod.splits)

lemma traverse_children_snd:
  "traverse c s = (c', s1)
   \<Longrightarrow> snd (traverse_children (c # cs) s) = snd (traverse_children cs s1)"
  by (simp split: prod.splits)

lemma traverse_set:
  "set (snd (snd (traverse obj s))) = set (snd s) \<union> set (meshMaterials obj)"
  "set (snd (snd (traverse_children cs s)))
   = set (snd s) \<union> (\<Union>c\<in>set cs. set (meshMaterials c))"
proof (induction obj s and cs s rule: traverse_traverse_children.induct)
  case (1 n cs s)
  obtain n' s1 where v: "visit n s = (n', s1)" by (cases "visit n s")
  have s1: "set (snd s1) = set (snd s) \<union> (if isMesh n then {material n} else {})"
    using visit_set [of n s] v by (simp add: set_set_add)
  have "set (snd (snd (traverse_children cs s1)))
        = set (snd s1) \<union> (\<Union>c\<in>set cs. set (meshMaterials c))"
    using "1.IH" [OF v [symmetric]] by simp
  then show ?case
    unfolding traverse_snd [OF v] s1 meshMaterials_Object3D by auto
next
  case (2 s)
  then show ?case by simp
next
  case (3 c cs s)
  obtain c' s1 where t: "traverse c s = (c', s1)" by (cases "traverse c s")
  from "3.IH"(1) t have a: "set (snd s1) = set (snd s) \<union> set (meshMaterials c)" by simp
  from "3.IH"(2) [OF t [symmetric]]
  have "set (snd (snd (traverse_children cs s1)))
        = set (snd s1) \<union> (\<Union>c\<in>set cs. set (meshMaterials c))" by simp
  then show ?case
    unfolding traverse_children_snd [OF t] a by auto
qed

lemma traverse_distinct:
  "distinct (snd s) \<Longrightarrow> distinct (snd (snd (traverse obj s)))"
  "distinct (snd s) \<Longrightarrow> distinct (snd (snd (traverse_children cs s)))"
proof (induction obj s and cs s rule: traverse_traverse_children.induct)
  case (1 n cs s)
  obtain n' s1 where v: "visit n s = (n', s1)" by (cases "visit n s")
  have "distinct (snd s1)"
    using visit_set [of n s] v "1.prems" by (simp add: distinct_set_add)
  with "1.IH" [OF v [symmetric]] show ?case
    unfolding traverse_snd [OF v] by simp
next
  case (2 s)
  then show ?case by simp
next
  case (3 c cs s)
  obtain c' s1 where t: "traverse c s = (c', s1)" by (cases "traverse c s")
  from "3.IH"(1) "3.prems" t have "distinct (snd s1)" by simp
  with "3.IH"(2) [OF t [symmetric]] show ?case
    unfolding traverse_children_snd [OF t] by simp
qed

text \<open>The traversal changes no geometry and no transform: the box of a tree is the same.\<close>

lemma visit_geometry:
  "geometry (fst (visit n s)) = geometry n"
  "position (fst (visit n s)) = position n"
  "rotation (fst (visit n s)) = rotation n"
  "scale (fst (visit n s)) = scale n"
  "isMesh (fst (visit n s)) = isMesh n"
  "material (fst (visit n s)) = material n"
  by (simp_all add: visit_def split: prod.splits)

lemma traverse_props:
  "props (fst (traverse obj s)) = fst (visit (props obj) s)"
  by (cases obj) (simp split: prod.splits)

lemma localMatrix_visit: "localMatrix (fst (visit n s)) = localMatrix n"
  by (simp add: localMatrix_def visit_geometry)

lemma traverse_expandByObject:
  "expandByObject w (fst (traverse obj s)) b = expandByObject w obj b"
  "fold (\<lambda>c. expandByObject (multiplyMatrices w (localMatrix (props c))) c)
     (fst (traverse_children cs s)) b
   = fold (\<lambda>c. expandByObject (multiplyMatrices w (localMatrix (props c))) c) cs b"
proof (induction obj s and cs s arbitrary: w b and w b rule: traverse_traverse_children.induct)
  case (1 n cs s)
  obtain n' s1 where v: "visit n s = (n', s1)" by (cases "visit n s")
  obtain cs' s2 where t: "traverse_children cs s1 = (cs', s2)"
    by (cases "traverse_children cs s1")
  have n': "geometry n' = geometry n" using visit_geometry(1) [of n s] v by simp
  from "1.IH" [OF v [symmetric], of w] t
  have "fold (\<lambda>c. expandByObject (multiplyMatrices w (localMatrix (props c))) c) cs' b'
        = fold (\<lambda>c. expandByObject (multiplyMatrices w (localMatrix (props c))) c) cs b'" for b'
    by simp
  then show ?case by (simp add: v t n')
next
  case (2 s)
  then show ?case by simp
next
  case (3 c cs s)
  obtain c' s1 where t: "traverse c s = (c', s1)" by (cases "traverse c s")
  obtain cs' s2 where tc: "traverse_children cs s1 = (cs', s2)"
    by (cases "traverse_children cs s1")
  have p: "localMatrix (props c') = localMatrix (props c)"
    using traverse_props [of c s] t by (simp add: localMatrix_visit)
  from "3.IH"(1) [of "multiplyMatrices w (localMatrix (props c))" b] t
  have h: "expandByObject (multiplyMatrices w (localMatrix (props c))) c' b
           = expandByObject (multiplyMatrices w (localMatrix (props c))) c b" by simp
  from "3.IH"(2) [OF t [symmetric], of w] tc
  have "fold (\<lambda>c. expandByObject (multiplyMatrices w (localMatrix (props c))) c) cs' b'
        = fold (\<lambda>c. expandByObject (multiplyMatrices w (localMatrix (props c))) c) cs b'" for b'
    by simp
  then show ?case by (simp add: t tc p h)
qed

lemma setFromObject_traverse: "setFromObject (fst (traverse obj s)) = setFromObject obj"
  by (simp add: setFromObject_def traverse_props localMatrix_visit traverse_expandByObject)

text \<open>The traversal touches only the colour of a material.\<close>

lemma visit_store:
  "metalness (fst (snd (visit n s)) r) = metalness (fst s r)"
  "roughness (fst (snd (visit n s)) r) = roughness (fst s r)"
  "wireframe (fst (snd (visit n s)) r) = wireframe (fst s r)"
  by (simp_all add: visit_def split: prod.splits)

lemma traverse_store:
  "metalness (fst (snd (traverse obj s)) r) = metalness (fst s r)
   \<and> roughness (fst (snd (traverse obj s)) r) = roughness (fst s r)
   \<and> wireframe (fst (snd (traverse obj s)) r) = wireframe (fst s r)"
  "metalness (fst (snd (traverse_children cs s)) r) = metalness (fst s r)
   \<and> roughness (fst (snd (traverse_children cs s)) r) = roughness (fst s r)
   \<and> wireframe (fst (snd (traverse_children cs s)) r) = wireframe (fst s r)"
proof (induction obj s and cs s rule: traverse_traverse_children.induct)
  case (1 n cs s)
  obtain n' s1 where v: "visit n s = (n', s1)" by (cases "visit n s")
  from visit_store [of n s r] v
  have "metalness (fst s1 r) = metalness (fst s r) \<and> roughness (fst s1 r) = roughness (fst s r)
        \<and> wireframe (fst s1 r) = wireframe (fst s r)" by simp
  with "1.IH" [OF v [symmetric]] show ?case
    unfolding traverse_snd [OF v] by simp
next
  case (2 s)
  then show ?case by simp
next
  case (3 c cs s)
  obtain c' s1 where t: "traverse c s = (c', s1)" by (cases "traverse c s")
  from "3.IH"(1) t
  have "metalness (fst s1 r) = metalness (fst s r) \<and> roughness (fst s1 r) = roughness (fst s r)
        \<and> wireframe (fst s1 r) = wireframe (fst s r)" by simp
  with "3.IH"(2) [OF t [symmetric]] show ?case
    unfolding traverse_children_snd [OF t] by simp
qed

text \<open>Every material the traversal has collected has a colour.\<close>

lemma visit_color:
  "\<forall>r\<in>set (snd s). color (fst s r) \<noteq> None
   \<Longrightarrow> \<forall>r\<in>set (snd (snd (visit n s))). color (fst (snd (visit n s)) r) \<noteq> None"
  by (cases s) (auto simp: visit_def set_add_def)

lemma traverse_color_inv:
  "\<forall>r\<in>set (snd s). color (fst s r) \<noteq> None
   \<Longrightarrow> \<forall>r\<in>set (snd (snd (traverse obj s))). color (fst (snd (traverse obj s)) r) \<noteq> None"
  "\<forall>r\<in>set (snd s). color (fst s r) \<noteq> None
   \<Longrightarrow> \<forall>r\<in>set (snd (snd (traverse_children cs s))).
         color (fst (snd (traverse_children cs s)) r) \<noteq> None"
proof (induction obj s and cs s rule: traverse_traverse_children.induct)
  case (1 n cs s)
  obtain n' s1 where v: "visit n s = (n', s1)" by (cases "visit n s")
  from visit_color [OF "1.prems", of n] v
  have "\<forall>r\<in>set (snd s1). color (fst s1 r) \<noteq> None" by simp
  from "1.IH" [OF v [symmetric] this] show ?case
    unfolding traverse_snd [OF v] .
next
  case (2 s)
  then show ?case by simp
next
  case (3 c cs s)
  obtain c' s1 where t: "traverse c s = (c', s1)" by (cases "traverse c s")
  from "3.IH"(1) [OF "3.prems"] t
  have "\<forall>r\<in>set (snd s1). color (fst s1 r) \<noteq> None" by simp
  from "3.IH"(2) [OF t [symmetric] this] show ?case
    unfolding traverse_children_snd [OF t] .
qed

lemma traverse_color: "r \<in> set (materialSet g) \<Longrightarrow> color (loadedStore g r) \<noteq> None"
  using traverse_color_inv(1) [of "(assetMaterials g, [])" "centred g"]
  by (simp add: materialSet_def loadedStore_def)

section \<open>Lemmas on the handlers and on runs\<close>

subsection \<open>What each handler leaves alone\<close>

lemma update_controls_fields [simp]:
  "scene_children (update_controls upd st) = scene_children st"
  "gui (update_controls upd st) = gui st"
  "object (update_controls upd st) = object st"
  "materials (update_controls upd st) = materials st"
  "renderer (update_controls upd st) = renderer st"
  "loader (update_controls upd st) = loader st"
  "console (update_controls upd st) = console st"
  "ambientLight (update_controls upd st) = ambientLight st"
  "mainLight (update_controls upd st) = mainLight st"
  "fillLight (update_controls upd st) = fillLight st"
  "topLight (update_controls upd st) = topLight st"
  "scene_background (update_controls upd st) = scene_background st"
  by (simp_all add: update_controls_def split: prod.splits)

lemma animate_fields [simp]:
  "scene_children (animate upd st) = scene_children st"
  "gui (animate upd st) = gui st"
  "object (animate upd st) = object st"
  "materials (animate upd st) = materials st"
  "loader (animate upd st) = loader st"
  "console (animate upd st) = console st"
  "shadowMap_enabled (renderer (animate upd st)) = shadowMap_enabled (renderer st)"
  "shadowMap_type (renderer (animate upd st)) = shadowMap_type (renderer st)"
  "rendered (renderer (animate upd st)) = Suc (rendered (renderer st))"
  by (simp_all add: animate_def Let_def)

lemma onResize_fields [simp]:
  "scene_children (onResize w h st) = scene_children st"
  "gui (onResize w h st) = gui st"
  "object (onResize w h st) = object st"
  "materials (onResize w h st) = materials st"
  "loader (onResize w h st) = loader st"
  "console (onResize w h st) = console st"
  "shadowMap_enabled (renderer (onResize w h st)) = shadowMap_enabled (renderer st)"
  "shadowMap_type (renderer (onResize w h st)) = shadowMap_type (renderer st)"
  by (simp_all add: onResize_def setSize_def Let_def)

lemma setMaterial_fields [simp]:
  "scene_children (setMaterial r f st) = scene_children st"
  "gui (setMaterial r f st) = gui st"
  "object (setMaterial r f st) = object st"
  "renderer (setMaterial r f st) = renderer st"
  "loader (setMaterial r f st) = loader st"
  "console (setMaterial r f st) = console st"
  "materials (setMaterial r f st) = (materials st)(r := f (materials st r))"
  by (simp_all add: setMaterial_def)

lemma setObject_fields [simp]:
  "scene_children (setObject f st) = scene_children st"
  "gui (setObject f st) = gui st"
  "renderer (setObject f st) = renderer st"
  "loader (setObject f st) = loader st"
  "console (setObject f st) = console st"
  "materials (setObject f st) = materials st"
  "(object (setObject f st) = None) = (object st = None)"
  by (simp_all add: setObject_def split: option.splits object3d.splits)

lemma onChangeNumber_fields [simp]:
  "scene_children (onChangeNumber h v st) = scene_children st"
  "gui (onChangeNumber h v st) = gui st"
  "renderer (onChangeNumber h v st) = renderer st"
  "loader (onChangeNumber h v st) = loader st"
  "console (onChangeNumber h v st) = console st"
  "(object (onChangeNumber h v st) = None) = (object st = None)"
  by (cases h; simp)+

lemma onChangeColor_fields [simp]:
  "scene_children (onChangeColor c v st) = scene_children st"
  "gui (onChangeColor c v st) = gui st"
  "renderer (onChangeColor c v st) = renderer st"
  "loader (onChangeColor c v st) = loader st"
  "console (onChangeColor c v st) = console st"
  "object (onChangeColor c v st) = object st"
  by (cases c; simp)+

lemma onChangeBoolean_fields [simp]:
  "scene_children (onChangeBoolean b v st) = scene_children st"
  "gui (onChangeBoolean b v st) = gui st"
  "renderer (onChangeBoolean b v st) = renderer st"
  "loader (onChangeBoolean b v st) = loader st"
  "console (onChangeBoolean b v st) = console st"
  "object (onChangeBoolean b v st) = object st"
  by (cases b; simp)+

lemma onProgress_fields [simp]:
  "scene_children (onProgress a b st) = scene_children st"
  "gui (onProgress a b st) = gui st"
  "renderer (onProgress a b st) = renderer st"
  "loader (onProgress a b st) = loader st"
  "object (onProgress a b st) = object st"
  "materials (onProgress a b st) = materials st"
  by (simp_all add: onProgress_def)

lemma onError_fields [simp]:
  "scene_children (onError e st) = scene_children st"
  "gui (onError e st) = gui st"
  "renderer (onError e st) = renderer st"
  "loader (onError e st) = loader st"
  "object (onError e st) = object st"
  "materials (onError e st) = materials st"
  "camera (onError e st) = camera st"
  "controls (onError e st) = controls st"
  "console (onError e st) = console st @ [ErrorLoadingModel e]"
  by (simp_all add: onError_def)

lemma onLoad_assemble_fields:
  "scene_children (onLoad_assemble g st) = scene_children st @ [Ground ground, LoadedObject]"
  "gui (onLoad_assemble g st)
   = gui st @ map (matFolder (loadedStore g)) (materialSet g) @ [modelFolder]"
  "object (onLoad_assemble g st) = Some (loadedRoot g)"
  "materials (onLoad_assemble g st) = loadedStore g"
  "renderer (onLoad_assemble g st) = renderer st"
  "loader (onLoad_assemble g st) = loader st"
  "console (onLoad_assemble g st) = console st"
  "controls (onLoad_assemble g st) = controls st"
  by (simp_all add: onLoad_assemble_def Let_def loadedStore_def materialSet_def loadedRoot_def
      centred_def split: prod.splits)

lemma onLoad_fields:
  "scene_children (onLoad upd g st) = scene_children st @ [Ground ground, LoadedObject]"
  "gui (onLoad upd g st)
   = gui st @ map (matFolder (loadedStore g)) (materialSet g) @ [modelFolder]"
  "object (onLoad upd g st) = Some (loadedRoot g)"
  "materials (onLoad upd g st) = loadedStore g"
  "renderer (onLoad upd g st) = renderer st"
  "loader (onLoad upd g st) = loader st"
  "console (onLoad upd g st) = console st"
  by (simp_all add: onLoad_def onLoad_assemble_fields)

subsection \<open>Steps and runs\<close>

lemma step_shadowMap:
  "shadowMap_enabled (renderer (step upd st ev)) = shadowMap_enabled (renderer st)
   \<and> shadowMap_type (renderer (step upd st ev)) = shadowMap_type (renderer st)"
  by (cases ev) (simp_all add: onLoad_fields)

lemma run_shadowMap:
  "shadowMap_enabled (renderer (run upd st es)) = shadowMap_enabled (renderer st)
   \<and> shadowMap_type (renderer (run upd st es)) = shadowMap_type (renderer st)"
  unfolding run_def by (induction es arbitrary: st) (simp_all add: step_shadowMap)

lemma step_settled:
  "loader st \<noteq> Pending \<Longrightarrow>
   loader (step upd st ev) = loader st \<and> scene_children (step upd st ev) = scene_children st
   \<and> gui (step upd st ev) = gui st \<and> (object (step upd st ev) = None) = (object st = None)"
  by (cases ev) simp_all

lemma run_settled:
  "loader st \<noteq> Pending \<Longrightarrow>
   loader (run upd st es) = loader st \<and> scene_children (run upd st es) = scene_children st
   \<and> gui (run upd st es) = gui st \<and> (object (run upd st es) = None) = (object st = None)"
  unfolding run_def
proof (induction es arbitrary: st)
  case Nil
  then show ?case by simp
next
  case (Cons ev es)
  from step_settled [OF Cons.prems, of upd ev]
  have s: "loader (step upd st ev) = loader st"
    "scene_children (step upd st ev) = scene_children st"
    "gui (step upd st ev) = gui st"
    "(object (step upd st ev) = None) = (object st = None)" by simp_all
  with Cons.prems have "loader (step upd st ev) \<noteq> Pending" by simp
  from Cons.IH [OF this] s show ?case by simp
qed

lemma step_pending:
  "loader (step upd st ev) = Pending \<Longrightarrow>
   loader st = Pending \<and> scene_children (step upd st ev) = scene_children st
   \<and> gui (step upd st ev) = gui st \<and> object (step upd st ev) = None = (object st = None)"
  by (cases ev) (simp_all split: if_splits)

lemma step_loader:
  "loader (step upd st ev) =
     (if loader st = Pending
      then (case ev of LoadSuccess g \<Rightarrow> Succeeded | LoadError e \<Rightarrow> Failed | _ \<Rightarrow> Pending)
      else loader st)"
  by (cases ev) (simp_all add: onLoad_fields)

lemma main_fields:
  "scene_children (main upd w h s0) = lights"
  "gui (main upd w h s0) = [lightingFolder 0.4 0.8 0.4 0.3]"
  "object (main upd w h s0) = None"
  "loader (main upd w h s0) = Pending"
  "shadowMap_enabled (renderer (main upd w h s0))"
  "shadowMap_type (renderer (main upd w h s0)) = PCFSoftShadowMap"
  "console (main upd w h s0) = []"
  by (simp_all add: main_def bootstrap_def Let_def lights_def setSize_def
      AmbientLight_new_def DirectionalLight_new_def object3D.defs light.defs)

text \<open>Until the loader has called back, and after a failure, the scene is the bootstrap's.\<close>

lemma step_inv: "inv st \<Longrightarrow> inv (step upd st ev)"
proof (cases "loader st = Pending")
  case False
  assume i: "inv st"
  from step_settled [OF False, of upd ev]
  have "loader (step upd st ev) = loader st" "unloaded (step upd st ev) = unloaded st"
    "assembled (step upd st ev) = assembled st"
    by (simp_all add: unloaded_def assembled_def)
  with i show ?thesis by (simp add: inv_def)
next
  case True
  assume "inv st"
  with True have u: "unloaded st" by (simp add: inv_def)
  show ?thesis
  proof (cases ev)
    case (LoadSuccess g)
    with True u show ?thesis
      by (auto simp: inv_def unloaded_def assembled_def onLoad_fields)
  qed (use True u in \<open>simp_all add: inv_def unloaded_def\<close>)
qed

lemma run_inv: "inv st \<Longrightarrow> inv (run upd st es)"
  unfolding run_def by (induction es arbitrary: st) (simp_all add: step_inv)

lemma main_inv: "inv (main upd w h s0)"
  by (simp add: inv_def unloaded_def main_fields)

lemma reachable_inv: "inv (run upd (main upd w h s0) es)"
  by (rule run_inv [OF main_inv])

section \<open>The example asset, evaluated\<close>

lemmas fixture_defs = house_def meshNode_def groupNode_def standardMaterial_def bareMaterial_def
  newObject3D_def object3D.defs node.defs noUpdate_def

lemma house_box: "setFromObject (scene house) = Box3 (Vector3 0 2 3) (Vector3 7 6 9)"
  by (simp add: fixture_defs setFromObject_def localMatrix_def compose_def
      makeRotationFromEuler_def Let_def multiplyMatrices_def applyLinear_def applyMatrix4_def
      box_applyMatrix4_def setFromPoints_def corners_def vec_defs)

lemma house_traverse:
  "materialSet house = [0, 1]"
  by (simp add: materialSet_def centred_def fixture_defs visit_def set_add_def)

lemma house_meshMaterials: "meshMaterials (scene house) = [0, 0, 1]"
  by (simp add: meshMaterials_def fixture_defs)

section \<open>The lighting controls\<close>

lemma main_intensities: "intensities (main upd w h s0) = (0.4, 0.8, 0.4, 0.3)"
  by (simp add: intensities_def main_def bootstrap_def Let_def animate_def update_controls_def
      AmbientLight_new_def DirectionalLight_new_def object3D.defs light.defs split: prod.splits)

text \<open>
  Claim C6. The callback of each of the four intensity controls (ambient, main, fill, top),
  called with any value \<open>v\<close>, sets the intensity of its own light to \<open>v\<close> and leaves the
  intensity of the three other lights as it was. These four callbacks are the ones the
  controls of the panel hold after the bootstrap.
\<close>

theorem light_intensity_callbacks:
  "intensities (onChangeNumber AmbientIntensity v st)
     = (v, intensity (mainLight st), intensity (fillLight st), intensity (topLight st))
   \<and> intensities (onChangeNumber MainIntensity v st)
     = (intensity (ambientLight st), v, intensity (fillLight st), intensity (topLight st))
   \<and> intensities (onChangeNumber FillIntensity v st)
     = (intensity (ambientLight st), intensity (mainLight st), v, intensity (topLight st))
   \<and> intensities (onChangeNumber TopIntensity v st)
     = (intensity (ambientLight st), intensity (mainLight st), intensity (fillLight st), v)
   \<and> map (\<lambda>c. case c of NumberController _ _ _ _ _ cb \<Rightarrow> Some cb | _ \<Rightarrow> None)
        (allControllers (main upd w h s0))
     = [Some AmbientIntensity, Some MainIntensity, Some FillIntensity, Some TopIntensity]"
  by (simp add: intensities_def allControllers_def main_fields lightingFolder_def)

theorem light_intensity_callbacks_witness:
  "intensities (onChangeNumber MainIntensity 1 (main noUpdate 800 600 ())) = (0.4, 1, 0.4, 0.3)"
  using light_intensity_callbacks [of 1 "main noUpdate 800 600 ()" noUpdate 800 600 "()"]
    main_intensities [of noUpdate 800 600 "()"]
  by (simp add: intensities_def)

section \<open>Shadow mapping\<close>

text \<open>
  Claim C10. After the bootstrap the renderer's shadow mapping is enabled with the soft
  shadow map type, and it stays so after any sequence of events: no frame, resize, pointer
  input, control change or loader callback disables it or changes its type.
\<close>

theorem shadow_mapping_stays_enabled:
  "shadowMap_enabled (renderer (run upd (main upd w h s0) es))
   \<and> shadowMap_type (renderer (run upd (main upd w h s0) es)) = PCFSoftShadowMap"
  by (simp add: run_shadowMap main_fields)

theorem shadow_mapping_stays_enabled_witness:
  "shadowMap_enabled
     (renderer (run noUpdate (main noUpdate 800 600 ())
        [Frame, Resize 1024 768, LoadSuccess house, NumberChange ModelScale 2, Frame]))"
  using shadow_mapping_stays_enabled [of noUpdate 800 600 "()"
      "[Frame, Resize 1024 768, LoadSuccess house, NumberChange ModelScale 2, Frame]"]
  by simp

section \<open>Centring the loaded root\<close>

lemma loadedRoot_box:
  "setFromObject (loadedRoot g)
   = translateBox (vsub (Vector3 0 0 0) (getCenter (setFromObject (scene g))))
       (setFromObject (scene g))"
  by (simp add: loadedRoot_def setFromObject_traverse centred_def setFromObject_position_sub
      onLoad_box_def)

lemma position_sub_props:
  "props (position_sub obj c) = (props obj)\<lparr>position := vsub (position (props obj)) c\<rparr>"
  by (cases obj) simp

lemma loadedRoot_position:
  "position (props (loadedRoot g))
   = vsub (position (props (scene g))) (getCenter (setFromObject (scene g)))"
  by (simp add: loadedRoot_def traverse_props visit_geometry centred_def onLoad_box_def
      position_sub_props)

lemma house_centre: "getCenter (setFromObject (scene house)) = Vector3 (7 / 2) 4 6"
  by (simp add: house_box getCenter_def vec_defs)

lemma house_position: "position (props (scene house)) = Vector3 1 2 3"
  by (simp add: fixture_defs)

text \<open>
  Claim C2. After the success callback, whatever the position, rotation and scale the
  loader gave the root and its descendants, the root the scene holds is the loaded root
  with the centre of its bounding box subtracted from its position, and the centre of the
  bounding box of that root is the origin. The arithmetic is exact here, which is what
  the program's doubles approximate.
\<close>

theorem loaded_root_centred:
  "\<exists>root. object (onLoad upd g st) = Some root
     \<and> position (props root)
       = vsub (position (props (scene g))) (getCenter (setFromObject (scene g)))
     \<and> getCenter (setFromObject root) = Vector3 0 0 0"
  by (simp add: onLoad_fields loadedRoot_box loadedRoot_position getCenter_centered)

theorem loaded_root_centred_witness:
  "\<exists>root. object (onLoad noUpdate house (main noUpdate 800 600 ())) = Some root
     \<and> position (props root) = Vector3 (- 5 / 2) (- 2) (- 3)
     \<and> getCenter (setFromObject root) = Vector3 0 0 0"
proof -
  from loaded_root_centred [of noUpdate house "main noUpdate 800 600 ()"]
  obtain root where r: "object (onLoad noUpdate house (main noUpdate 800 600 ())) = Some root"
    "position (props root)
     = vsub (position (props (scene house))) (getCenter (setFromObject (scene house)))"
    "getCenter (setFromObject root) = Vector3 0 0 0"
    by blast
  have "vsub (Vector3 1 2 3) (Vector3 (7 / 2) 4 6) = Vector3 (- 5 / 2) (- 2) (- 3)"
    by (simp add: vec_defs)
  with r show ?thesis by (simp add: house_centre house_position)
qed

section \<open>The camera distance\<close>

lemma onLoad_assemble_camera:
  "camera (onLoad_assemble g st)
   = (camera st)\<lparr>position := (position (camera st))\<lparr>vz := maxDim (onLoad_box g) * 2\<rparr>\<rparr>"
  by (simp add: onLoad_assemble_def Let_def maxDim_def split: prod.splits)

lemma onLoad_controls_camera:
  "(controls (onLoad upd g st), camera (onLoad upd g st))
   = upd (controls st)
       ((camera st)\<lparr>position := (position (camera st))\<lparr>vz := maxDim (onLoad_box g) * 2\<rparr>\<rparr>)"
  by (simp add: onLoad_def update_controls_def onLoad_assemble_camera onLoad_assemble_fields
      split: prod.splits)

lemma house_maxDim: "maxDim (onLoad_box house) = 7"
  by (simp add: maxDim_def onLoad_box_def house_box getSize_def vec_defs)

lemma orbitUpdate_axis:
  assumes "position cam = Vector3 0 0 z" and "0 < z"
    and "minPolarAngle c \<le> pi / 2" and "pi / 2 \<le> maxPolarAngle c"
  shows "orbitUpdate c cam
         = (c, cam\<lparr>position := Vector3 0 0 (max (minDistance c) (min (maxDistance c) z))\<rparr>)"
proof -
  have r: "sqrt (z * z) = z" using assms(2) by simp
  have s0: "setFromVector3 (position cam) = \<lparr>radius = z, phi = pi / 2, theta = 0\<rparr>"
    using assms(1,2) by (simp add: setFromVector3_def Let_def r atan2_def vec_defs)
  have p: "max (minPolarAngle c) (min (maxPolarAngle c) (pi / 2)) = pi / 2"
    using assms(3,4) by simp
  have "2 \<le> pi" by (rule pi_ge_two)
  then have m: "max (1 / 1000000) (min (pi - 1 / 1000000) (pi / 2)) = pi / 2" by simp
  show ?thesis
    by (simp add: orbitUpdate_def Let_def s0 p makeSafe_def m setFromSpherical_def)
qed

lemma update_controls_orbit:
  "camera (update_controls upd st) = snd (upd (controls st) (camera st))"
  "controls (update_controls upd st) = fst (upd (controls st) (camera st))"
  by (simp_all add: update_controls_def split: prod.splits)

lemma atRest_update: "atRest st \<Longrightarrow> atRest (update_controls orbitUpdate st)"
proof -
  assume a: "atRest st"
  then have "orbitUpdate (controls st) (camera st)
             = (controls st, (camera st)\<lparr>position := Vector3 0 0 (max 2 (min 20 5))\<rparr>)"
    using orbitUpdate_axis [of "camera st" 5 "controls st"] by (simp add: atRest_def)
  with a show ?thesis by (simp add: atRest_def update_controls_orbit)
qed

lemma atRest_handlers:
  "atRest (onResize a b st) = atRest st"
  "atRest (onChangeNumber hn v st) = atRest st"
  "atRest (onChangeColor hc n st) = atRest st"
  "atRest (onChangeBoolean hb t st) = atRest st"
  "atRest (onProgress a b st) = atRest st"
  "atRest (onError e st) = atRest st"
  "atRest (st\<lparr>loader := l\<rparr>) = atRest st"
proof -
  show "atRest (onResize a b st) = atRest st"
    by (simp add: atRest_def onResize_def Let_def)
  show "atRest (onChangeNumber hn v st) = atRest st"
    by (cases hn)
      (simp_all add: atRest_def setMaterial_def setObject_def split: option.splits object3d.splits)
  show "atRest (onChangeColor hc n st) = atRest st"
    by (cases hc) (simp add: atRest_def setMaterial_def)
  show "atRest (onChangeBoolean hb t st) = atRest st"
    by (cases hb) (simp add: atRest_def setMaterial_def)
  show "atRest (onProgress a b st) = atRest st"
    by (simp add: atRest_def onProgress_def)
  show "atRest (onError e st) = atRest st"
    by (simp add: atRest_def onError_def)
  show "atRest (st\<lparr>loader := l\<rparr>) = atRest st"
    by (simp add: atRest_def)
qed

lemma atRest_step:
  "atRest st \<Longrightarrow> loader (step orbitUpdate st ev) = Pending \<Longrightarrow> atRest (step orbitUpdate st ev)"
proof (cases ev)
  case Frame
  assume "atRest st"
  from atRest_update [OF this] show ?thesis
    by (simp add: Frame animate_def Let_def atRest_def)
next
  case (Pointer f)
  assume "atRest st"
  then have "atRest (st\<lparr>controls := (controls st)\<lparr>internal := f (internal (controls st))\<rparr>\<rparr>)"
    by (simp add: atRest_def)
  from atRest_update [OF this] show ?thesis by (simp add: Pointer)
next
  case (LoadSuccess g)
  assume "atRest st" "loader (step orbitUpdate st ev) = Pending"
  then show ?thesis by (simp add: LoadSuccess split: if_splits)
qed (simp_all add: atRest_handlers)

lemma atRest_main: "atRest (main orbitUpdate w h ())"
proof -
  have "atRest (bootstrap w h ())"
    by (simp add: atRest_def bootstrap_def Let_def PerspectiveCamera_new_def newObject3D_def
        object3D.defs camera.defs vec_defs)
  from atRest_update [OF this] show ?thesis
    by (simp add: main_def animate_def Let_def atRest_def)
qed

lemma run_snoc: "run upd st (es @ [ev]) = step upd (run upd st es) ev"
  by (simp add: run_def)

lemma atRest_run:
  "atRest st \<Longrightarrow> loader (run orbitUpdate st es) = Pending \<Longrightarrow> atRest (run orbitUpdate st es)"
proof (induction es rule: rev_induct)
  case Nil
  then show ?case by (simp add: run_def)
next
  case (snoc ev es)
  from snoc.prems(2) have p: "loader (step orbitUpdate (run orbitUpdate st es) ev) = Pending"
    by (simp only: run_snoc)
  from step_pending [OF p] have "loader (run orbitUpdate st es) = Pending" by simp
  from snoc.IH [OF snoc.prems(1) this] p show ?case
    unfolding run_snoc by (rule atRest_step)
qed

lemma loadedRoot_maxDim: "maxDim (setFromObject (loadedRoot g)) = maxDim (onLoad_box g)"
  by (simp add: maxDim_def loadedRoot_box getSize_translateBox onLoad_box_def)

lemma orbit_load_position:
  assumes "atRest st" and "0 < maxDim (setFromObject (loadedRoot g))"
  shows "position (camera (onLoad orbitUpdate g st))
         = Vector3 0 0 (max 2 (min 20 (2 * maxDim (setFromObject (loadedRoot g)))))"
proof -
  define d where "d = maxDim (setFromObject (loadedRoot g))"
  have cam: "camera (onLoad_assemble g st)
             = (camera st)\<lparr>position := (position (camera st))\<lparr>vz := d * 2\<rparr>\<rparr>"
    by (simp add: onLoad_assemble_camera loadedRoot_maxDim d_def)
  from assms(1) have pos: "position (camera (onLoad_assemble g st)) = Vector3 0 0 (d * 2)"
    by (simp add: cam atRest_def vec_defs)
  from assms(1) have c: "minPolarAngle (controls (onLoad_assemble g st)) = 0"
    "maxPolarAngle (controls (onLoad_assemble g st)) = pi / 2"
    "minDistance (controls (onLoad_assemble g st)) = 2"
    "maxDistance (controls (onLoad_assemble g st)) = 20"
    by (simp_all add: onLoad_assemble_fields atRest_def)
  from assms(2) have "0 < d * 2" by (simp add: d_def)
  from orbitUpdate_axis [OF pos this] c
  have "orbitUpdate (controls (onLoad_assemble g st)) (camera (onLoad_assemble g st))
        = (controls (onLoad_assemble g st),
           (camera (onLoad_assemble g st))\<lparr>position := Vector3 0 0 (max 2 (min 20 (d * 2)))\<rparr>)"
    by simp
  then show ?thesis
    by (simp add: onLoad_def update_controls_orbit d_def mult.commute)
qed

lemma onLoad_hands_over:
  "(controls (onLoad upd g st), camera (onLoad upd g st))
   = upd (controls st)
       ((camera st)\<lparr>position :=
          (position (camera st))\<lparr>vz := 2 * maxDim (setFromObject (loadedRoot g))\<rparr>\<rparr>)"
  by (simp add: onLoad_controls_camera loadedRoot_maxDim mult.commute)

lemma clamp_fixed: "max 2 (min 20 (2 * d)) = 2 * d \<longleftrightarrow> 1 \<le> d \<and> d \<le> (10::real)"
  by (auto simp: max_def min_def)

text \<open>
  Claim C1, as the code has it. The success callback gives the camera's \<open>z\<close> exactly twice
  the largest dimension of the bounding box of the centred root (it reads the size of the
  box it computed before centring, which a translation leaves the same; the arithmetic is
  exact here) and then calls the orbit controller's update on the camera so placed: the
  controller and the camera after the callback are what that update returns. With the
  controller as main.js configures it and no pointer input before the load, the camera
  after the load of an asset with a box of positive size is at \<open>(0, 0, z)\<close> where \<open>z\<close> is
  twice the largest dimension restricted to the distance limits \<open>[2, 20]\<close>: it is twice
  the largest dimension exactly when that dimension lies in \<open>[1, 10]\<close>.
\<close>

theorem camera_depth_after_load:
  "(controls (onLoad upd g st), camera (onLoad upd g st))
     = upd (controls st)
         ((camera st)\<lparr>position :=
            (position (camera st))\<lparr>vz := 2 * maxDim (setFromObject (loadedRoot g))\<rparr>\<rparr>)
   \<and> object (onLoad upd g st) = Some (loadedRoot g)
   \<and> (loader (run orbitUpdate (main orbitUpdate w h ()) es) = Pending
        \<and> 0 < maxDim (setFromObject (loadedRoot g))
        \<longrightarrow> position (camera (step orbitUpdate (run orbitUpdate (main orbitUpdate w h ()) es)
                    (LoadSuccess g)))
              = Vector3 0 0 (max 2 (min 20 (2 * maxDim (setFromObject (loadedRoot g)))))
            \<and> (vz (position (camera (step orbitUpdate
                    (run orbitUpdate (main orbitUpdate w h ()) es) (LoadSuccess g))))
                 = 2 * maxDim (setFromObject (loadedRoot g))
               \<longleftrightarrow> 1 \<le> maxDim (setFromObject (loadedRoot g))
                   \<and> maxDim (setFromObject (loadedRoot g)) \<le> 10))"
proof -
  have b: "position (camera (step orbitUpdate (run orbitUpdate (main orbitUpdate w h ()) es)
              (LoadSuccess g)))
           = Vector3 0 0 (max 2 (min 20 (2 * maxDim (setFromObject (loadedRoot g)))))"
    if p: "loader (run orbitUpdate (main orbitUpdate w h ()) es) = Pending"
      and d: "0 < maxDim (setFromObject (loadedRoot g))"
  proof -
    from atRest_run [OF atRest_main p]
    have "atRest (run orbitUpdate (main orbitUpdate w h ()) es)" .
    from orbit_load_position [OF this d] p show ?thesis by simp
  qed
  have c: "vz (Vector3 0 0 (max 2 (min 20 (2 * d)))) = 2 * d \<longleftrightarrow> 1 \<le> d \<and> d \<le> 10"
    for d :: real
    by (simp add: Vector3_def clamp_fixed)
  from b c show ?thesis
    by (simp only: onLoad_hands_over onLoad_fields) simp
qed

lemma house_root_maxDim: "maxDim (setFromObject (loadedRoot house)) = 7"
  by (simp add: loadedRoot_maxDim house_maxDim)

theorem camera_depth_after_load_witness:
  "position (camera (step orbitUpdate (run orbitUpdate (main orbitUpdate 800 600 ()) [Frame])
      (LoadSuccess house))) = Vector3 0 0 14
   \<and> 2 * maxDim (setFromObject (loadedRoot house)) = 14"
proof -
  have p: "loader (run orbitUpdate (main orbitUpdate 800 600 ()) [Frame]) = Pending"
    by (simp add: run_def main_fields)
  from camera_depth_after_load [of noUpdate house "main noUpdate 800 600 ()" 800 600 "[Frame]"] p
  show ?thesis unfolding house_root_maxDim by simp
qed

lemma hall_box: "setFromObject (scene hall) = Box3 (Vector3 0 0 0) (Vector3 12 4 6)"
  by (simp add: hall_def meshNode_def newObject3D_def object3D.defs node.defs
      setFromObject_def localMatrix_def compose_def makeRotationFromEuler_def Let_def
      applyLinear_def applyMatrix4_def box_applyMatrix4_def setFromPoints_def corners_def
      vec_defs)

lemma hall_maxDim: "maxDim (setFromObject (loadedRoot hall)) = 12"
  unfolding loadedRoot_maxDim onLoad_box_def hall_box
  by (simp add: maxDim_def getSize_def vec_defs)

text \<open>
  For the asset of largest dimension 12 the callback sets \<open>z\<close> to 24 and the controller's
  update, called next, brings the camera back to its largest distance: after the load
  \<open>z\<close> is 20.
\<close>

theorem camera_depth_clamped:
  "object (step orbitUpdate (main orbitUpdate 800 600 ()) (LoadSuccess hall))
     = Some (loadedRoot hall)
   \<and> 2 * maxDim (setFromObject (loadedRoot hall)) = 24
   \<and> vz (position (camera (step orbitUpdate (main orbitUpdate 800 600 ()) (LoadSuccess hall))))
     = 20
   \<and> vz (position (camera (step orbitUpdate (main orbitUpdate 800 600 ()) (LoadSuccess hall))))
     \<noteq> 2 * maxDim (setFromObject (loadedRoot hall))"
proof -
  have p: "loader (main orbitUpdate 800 600 ()) = Pending" by (simp add: main_fields)
  from orbit_load_position [OF atRest_main, of hall 800 600]
  have "position (camera (onLoad orbitUpdate hall (main orbitUpdate 800 600 ())))
        = Vector3 0 0 20"
    unfolding hall_maxDim by simp
  with p show ?thesis
    by (simp add: hall_maxDim onLoad_fields Vector3_def)
qed

section \<open>The panel sections and the scene after a load\<close>

lemma step_success:
  "loader st = Pending \<Longrightarrow>
   loader (step upd st (LoadSuccess g)) = Succeeded
   \<and> gui (step upd st (LoadSuccess g))
       = gui st @ map (matFolder (loadedStore g)) (materialSet g) @ [modelFolder]
   \<and> scene_children (step upd st (LoadSuccess g))
       = scene_children st @ [Ground ground, LoadedObject]
   \<and> object (step upd st (LoadSuccess g)) = Some (loadedRoot g)
   \<and> materials (step upd st (LoadSuccess g)) = loadedStore g"
  by (simp add: onLoad_fields)

lemma emits_scale:
  "modelFolder \<in> set (gui st) \<Longrightarrow> 0.1 \<le> s \<Longrightarrow> s \<le> 2
   \<Longrightarrow> list_ex (emitsNumber ModelScale s) (allControllers st)"
  by (auto simp: allControllers_def list_ex_iff modelFolder_def
      intro!: bexI [where x = modelFolder])

text \<open>
  Claim C5. Once the load has succeeded, and after any further events, a change of the
  scale control to a value \<open>s\<close> of its range \<open>[0.1, 2]\<close> runs the scale callback, after
  which the scale vector of the loaded root is exactly \<open>(s, s, s)\<close>.
\<close>

theorem scale_control_uniform:
  assumes "loader st = Pending" and "0.1 \<le> s" and "s \<le> 2"
  shows "\<exists>n cs. object (step upd (run upd (step upd st (LoadSuccess g)) es)
                    (NumberChange ModelScale s)) = Some (Object3D n cs)
           \<and> scale n = Vector3 s s s"
proof -
  define st1 where "st1 = step upd st (LoadSuccess g)"
  define st2 where "st2 = run upd st1 es"
  from step_success [OF assms(1), of upd g]
  have l: "loader st1 \<noteq> Pending" and m: "modelFolder \<in> set (gui st1)"
    and o: "object st1 \<noteq> None"
    by (simp_all add: st1_def)
  from run_settled [OF l, of upd es] m o
  have "modelFolder \<in> set (gui st2)" and o2: "object st2 \<noteq> None"
    by (simp_all add: st2_def)
  then have e: "list_ex (emitsNumber ModelScale s) (allControllers st2)"
    using assms(2,3) by (simp add: emits_scale)
  from o2 obtain n cs where "object st2 = Some (Object3D n cs)"
    by (cases "object st2") (auto intro: object3d.exhaust)
  with e have "object (step upd st2 (NumberChange ModelScale s))
               = Some (Object3D (n\<lparr>scale := Vector3 s s s\<rparr>) cs)"
    by (simp add: setObject_def)
  then have "\<exists>n cs. object (step upd st2 (NumberChange ModelScale s)) = Some (Object3D n cs)
               \<and> scale n = Vector3 s s s"
    by simp
  then show ?thesis unfolding st2_def st1_def .
qed

theorem scale_control_uniform_witness:
  "\<exists>n cs. object (step noUpdate (run noUpdate (step noUpdate (main noUpdate 800 600 ())
               (LoadSuccess house)) [Frame]) (NumberChange ModelScale (3 / 2)))
             = Some (Object3D n cs)
           \<and> scale n = Vector3 (3 / 2) (3 / 2) (3 / 2)"
  using scale_control_uniform [of "main noUpdate 800 600 ()" "3 / 2" noUpdate house "[Frame]"]
  by (simp add: main_fields)

lemma nodes_position_sub:
  "map (\<lambda>n. (isMesh n, material n)) (nodes (position_sub obj c))
   = map (\<lambda>n. (isMesh n, material n)) (nodes obj)"
  by (cases obj) simp

lemma meshMaterials_position_sub: "meshMaterials (position_sub obj c) = meshMaterials obj"
  by (cases obj) (simp add: meshMaterials_def)

lemma materialSet_set: "set (materialSet g) = set (meshMaterials (scene g))"
  using traverse_set(1) [of "centred g" "(assetMaterials g, [])"]
  by (simp add: materialSet_def centred_def meshMaterials_position_sub)

lemma materialSet_distinct: "distinct (materialSet g)"
  using traverse_distinct(1) [of "(assetMaterials g, [])" "centred g"]
  by (simp add: materialSet_def)

lemma matFolder_targets: "list_all (\<lambda>c. target c = Some r) (controllers (matFolder h r))"
  by (simp add: matFolder_def Let_def)

lemma matFolder_section:
  "list_ex (\<lambda>c. target c = Some r) (controllers (matFolder h r')) \<longleftrightarrow> r' = r"
  by (auto simp: matFolder_def Let_def)

lemma sectionsFor_append: "sectionsFor r (fs @ gs) = sectionsFor r fs @ sectionsFor r gs"
  by (simp add: sectionsFor_def)

lemma sectionsFor_fixed:
  "sectionsFor r [lightingFolder a b c d] = []" "sectionsFor r [modelFolder] = []"
  by (simp_all add: sectionsFor_def lightingFolder_def modelFolder_def)

lemma sectionsFor_matFolders:
  "sectionsFor r (map (matFolder h) ms) = map (matFolder h) (filter (\<lambda>r'. r' = r) ms)"
  by (induction ms) (simp_all add: sectionsFor_def matFolder_section)

lemma distinct_filter_eq:
  "distinct ms \<Longrightarrow> filter (\<lambda>r'. r' = r) ms = (if r \<in> set ms then [r] else [])"
  by (induction ms) (auto simp: filter_empty_conv)

lemma pending_gui:
  "loader (run upd (main upd w h s0) es) = Pending
   \<Longrightarrow> gui (run upd (main upd w h s0) es) = [lightingFolder 0.4 0.8 0.4 0.3]
     \<and> scene_children (run upd (main upd w h s0) es) = lights
     \<and> object (run upd (main upd w h s0) es) = None"
  using reachable_inv [of upd w h s0 es] by (simp add: inv_def unloaded_def)

lemma loaded_sections:
  assumes "loader (run upd (main upd w h s0) es) = Pending"
  shows "sectionsFor r (gui (step upd (run upd (main upd w h s0) es) (LoadSuccess g)))
         = (if r \<in> set (meshMaterials (scene g)) then [matFolder (loadedStore g) r] else [])"
proof -
  from step_success [OF assms, of upd g] pending_gui [OF assms]
  have "gui (step upd (run upd (main upd w h s0) es) (LoadSuccess g))
        = [lightingFolder 0.4 0.8 0.4 0.3] @ map (matFolder (loadedStore g)) (materialSet g)
          @ [modelFolder]" by simp
  then show ?thesis
    by (simp only: sectionsFor_append sectionsFor_fixed sectionsFor_matFolders
        distinct_filter_eq [OF materialSet_distinct] materialSet_set)
       simp
qed

text \<open>
  Claim C3. When the load succeeds, the panel gets exactly one section whose controls
  assign to the material \<open>r\<close> for every material \<open>r\<close> that some mesh of the loaded tree
  refers to, however many meshes refer to it, and no section for any other reference.
\<close>

theorem one_section_per_material:
  assumes "loader (run upd (main upd w h s0) es) = Pending"
  shows "length (sectionsFor r (gui (step upd (run upd (main upd w h s0) es) (LoadSuccess g))))
         = (if r \<in> set (meshMaterials (scene g)) then 1 else 0)"
  unfolding loaded_sections [OF assms] by simp

theorem one_section_per_material_witness:
  "meshMaterials (scene house) = [0, 0, 1]
   \<and> length (sectionsFor 0 (gui (step noUpdate (run noUpdate (main noUpdate 800 600 ()) [Frame])
        (LoadSuccess house)))) = 1"
  using one_section_per_material [of noUpdate 800 600 "()" "[Frame]" 0 house]
  by (simp add: house_meshMaterials run_def main_fields)

lemma loadedStore_fields:
  "metalness (loadedStore g r) = metalness (assetMaterials g r)"
  "roughness (loadedStore g r) = roughness (assetMaterials g r)"
  "wireframe (loadedStore g r) = wireframe (assetMaterials g r)"
  using traverse_store(1) [of "centred g" "(assetMaterials g, [])" r]
  by (simp_all add: loadedStore_def)

lemma matFolder_named:
  "length (controlsNamed ''metalness'' (matFolder h r))
   = (if metalness (h r) = None then 0 else 1)"
  "length (controlsNamed ''roughness'' (matFolder h r))
   = (if roughness (h r) = None then 0 else 1)"
  "length (controlsNamed ''color'' (matFolder h r)) = 1"
  "length (controlsNamed ''wireframe'' (matFolder h r)) = 1"
  by (simp_all add: controlsNamed_def matFolder_def Let_def)

text \<open>
  Claim C4. The section the success callback makes for a material has a control named
  \<open>metalness\<close> exactly when the material as loaded has a metalness (exactly one then, and
  none otherwise), and likewise for \<open>roughness\<close>. The defaults \<open>0.2\<close> and \<open>0.8\<close> of the
  parameter bag play no part in this.
\<close>

theorem metalness_roughness_controls:
  assumes "loader (run upd (main upd w h s0) es) = Pending"
    and "f \<in> set (sectionsFor r (gui (step upd (run upd (main upd w h s0) es) (LoadSuccess g))))"
  shows "length (controlsNamed ''metalness'' f)
           = (if metalness (assetMaterials g r) = None then 0 else 1)
         \<and> length (controlsNamed ''roughness'' f)
           = (if roughness (assetMaterials g r) = None then 0 else 1)"
proof -
  from assms(2) have "f = matFolder (loadedStore g) r"
    unfolding loaded_sections [OF assms(1)] by (simp split: if_splits)
  then show ?thesis by (simp add: matFolder_named loadedStore_fields)
qed

lemma house_pending: "loader (run noUpdate (main noUpdate 800 600 ()) [Frame]) = Pending"
  by (simp add: run_def main_fields)

lemma house_sections:
  "sectionsFor 0 (gui (step noUpdate (run noUpdate (main noUpdate 800 600 ()) [Frame])
      (LoadSuccess house))) = [matFolder (loadedStore house) 0]"
  "sectionsFor 1 (gui (step noUpdate (run noUpdate (main noUpdate 800 600 ()) [Frame])
      (LoadSuccess house))) = [matFolder (loadedStore house) 1]"
  unfolding loaded_sections [OF house_pending] by (simp_all add: house_meshMaterials)

theorem metalness_roughness_controls_witness:
  "length (controlsNamed ''metalness'' (matFolder (loadedStore house) 0)) = 1
   \<and> length (controlsNamed ''roughness'' (matFolder (loadedStore house) 0)) = 1
   \<and> length (controlsNamed ''metalness'' (matFolder (loadedStore house) 1)) = 0
   \<and> length (controlsNamed ''roughness'' (matFolder (loadedStore house) 1)) = 0"
proof -
  have a: "matFolder (loadedStore house) 0
     \<in> set (sectionsFor 0 (gui (step noUpdate (run noUpdate (main noUpdate 800 600 ()) [Frame])
          (LoadSuccess house))))"
    unfolding house_sections by simp
  have b: "matFolder (loadedStore house) 1
     \<in> set (sectionsFor 1 (gui (step noUpdate (run noUpdate (main noUpdate 800 600 ()) [Frame])
          (LoadSuccess house))))"
    unfolding house_sections by simp
  from metalness_roughness_controls [OF house_pending a]
    metalness_roughness_controls [OF house_pending b]
  show ?thesis by (simp add: house_def standardMaterial_def bareMaterial_def)
qed

text \<open>
  What \<open>target\<close> says of a number callback is what the callback does: without a target
  it writes to no material, with the target \<open>r\<close> to no material but \<open>r\<close>.
\<close>

lemma numberTarget_writes:
  "numberTarget h = None \<Longrightarrow> materials (onChangeNumber h v st) = materials st"
  "numberTarget h = Some r \<Longrightarrow> r' \<noteq> r \<Longrightarrow> materials (onChangeNumber h v st) r' = materials st r'"
  by (cases h; simp add: setObject_def split: option.splits object3d.splits)+

lemma seenBy_upd: "P m \<Longrightarrow> seenBy tree r (h(r := m)) P"
  by (simp add: seenBy_def list_all_iff)

text \<open>
  Claim C9. Every control of the section made for the material \<open>r\<close> holds a callback that
  assigns to \<open>r\<close>. Each of the four callbacks (colour, metalness, roughness, wireframe)
  changes the state in one place only, the field it sets of the material object \<open>r\<close>:
  every other material object, the loaded tree and the scene's children are as before,
  and every mesh of a tree that refers to \<open>r\<close> reads the new value.
\<close>

theorem material_callbacks_write_one_material:
  "list_all (\<lambda>c. target c = Some r) (controllers (matFolder h r))
   \<and> onChangeColor (MaterialColor r) c st
       = st\<lparr>materials := (materials st)(r := (materials st r)\<lparr>color := Some c\<rparr>)\<rparr>
   \<and> onChangeNumber (MaterialMetalness r) v st
       = st\<lparr>materials := (materials st)(r := (materials st r)\<lparr>metalness := Some v\<rparr>)\<rparr>
   \<and> onChangeNumber (MaterialRoughness r) v st
       = st\<lparr>materials := (materials st)(r := (materials st r)\<lparr>roughness := Some v\<rparr>)\<rparr>
   \<and> onChangeBoolean (MaterialWireframe r) b st
       = st\<lparr>materials := (materials st)(r := (materials st r)\<lparr>wireframe := Some b\<rparr>)\<rparr>
   \<and> othersKept r st (onChangeColor (MaterialColor r) c st)
   \<and> othersKept r st (onChangeNumber (MaterialMetalness r) v st)
   \<and> othersKept r st (onChangeNumber (MaterialRoughness r) v st)
   \<and> othersKept r st (onChangeBoolean (MaterialWireframe r) b st)
   \<and> seenBy tree r (materials (onChangeColor (MaterialColor r) c st)) (\<lambda>m. color m = Some c)
   \<and> seenBy tree r (materials (onChangeNumber (MaterialMetalness r) v st))
        (\<lambda>m. metalness m = Some v)
   \<and> seenBy tree r (materials (onChangeNumber (MaterialRoughness r) v st))
        (\<lambda>m. roughness m = Some v)
   \<and> seenBy tree r (materials (onChangeBoolean (MaterialWireframe r) b st))
        (\<lambda>m. wireframe m = Some b)"
  by (simp add: matFolder_targets setMaterial_def othersKept_def seenBy_upd)

theorem material_callbacks_write_one_material_witness:
  "seenBy (loadedRoot house) 0
     (materials (onChangeNumber (MaterialMetalness 0) (3 / 10)
        (onLoad noUpdate house (main noUpdate 800 600 ()))))
     (\<lambda>m. metalness m = Some (3 / 10))
   \<and> materials (onChangeNumber (MaterialMetalness 0) (3 / 10)
        (onLoad noUpdate house (main noUpdate 800 600 ()))) 1 = loadedStore house 1"
  using material_callbacks_write_one_material
    [of 0 "loadedStore house" 0 "onLoad noUpdate house (main noUpdate 800 600 ())" "3 / 10" False
      "loadedRoot house"]
  by (simp add: othersKept_def onLoad_fields)

lemma run_no_success:
  "\<forall>g. LoadSuccess g \<notin> set es \<Longrightarrow> loader st \<noteq> Succeeded
   \<Longrightarrow> loader (run upd st es) \<noteq> Succeeded"
  unfolding run_def
proof (induction es arbitrary: st)
  case Nil
  then show ?case by simp
next
  case (Cons ev es)
  from Cons.prems have "loader (step upd st ev) \<noteq> Succeeded"
    unfolding step_loader by (cases ev) (auto split: if_splits)
  with Cons show ?case by simp
qed

lemma ground_facts:
  "planeWidth ground = 50" "planeHeight ground = 50"
  "rotation ground = Vector3 (- pi / 2) 0 0" "position ground = Vector3 0 (- 2) 0"
  "scale ground = Vector3 1 1 1"
  "receiveShadow ground" "\<not> castShadow ground"
  by (simp_all add: ground_def Let_def newObject3D_def object3D.defs planeMesh.defs vec_defs)

lemma ground_faces_up:
  "applyLinear (makeRotationFromEuler (rotation ground)) (Vector3 0 0 1) = Vector3 0 1 0"
  by (simp add: ground_facts makeRotationFromEuler_def Let_def applyLinear_def vec_defs)

lemma reachable_grounds:
  "filter isGround (scene_children (run upd (main upd w h s0) es))
   = (if loader (run upd (main upd w h s0) es) = Succeeded then [Ground ground] else [])"
  using reachable_inv [of upd w h s0 es]
  by (simp add: inv_def unloaded_def assembled_def lights_def split: if_splits)

text \<open>
  Claim C7. In every state the script can reach, the scene holds exactly one ground plane
  if the load has succeeded and none otherwise; without a success callback among the
  events the load has not succeeded, and a success callback on a pending load adds the
  plane after the four lights, before the loaded root. The plane is 50 by 50, turned by
  \<open>-\<pi>/2\<close> about the \<open>x\<close> axis, which takes the normal \<open>(0, 0, 1)\<close> of a plane geometry to
  \<open>(0, 1, 0)\<close>, lies at \<open>y = -2\<close>, receives shadows and does not cast them.
\<close>

theorem one_ground_plane_on_success:
  "filter isGround (scene_children (run upd (main upd w h s0) es))
     = (if loader (run upd (main upd w h s0) es) = Succeeded then [Ground ground] else [])
   \<and> ((\<forall>g. LoadSuccess g \<notin> set es) \<longrightarrow> loader (run upd (main upd w h s0) es) \<noteq> Succeeded)
   \<and> (loader (run upd (main upd w h s0) es) = Pending \<longrightarrow>
        loader (step upd (run upd (main upd w h s0) es) (LoadSuccess g)) = Succeeded
        \<and> scene_children (step upd (run upd (main upd w h s0) es) (LoadSuccess g))
          = lights @ [Ground ground, LoadedObject])
   \<and> planeWidth ground = 50 \<and> planeHeight ground = 50
   \<and> rotation ground = Vector3 (- pi / 2) 0 0
   \<and> applyLinear (makeRotationFromEuler (rotation ground)) (Vector3 0 0 1) = Vector3 0 1 0
   \<and> position ground = Vector3 0 (- 2) 0
   \<and> receiveShadow ground \<and> \<not> castShadow ground"
proof -
  have a: "(\<forall>g. LoadSuccess g \<notin> set es) \<longrightarrow> loader (run upd (main upd w h s0) es) \<noteq> Succeeded"
    using run_no_success [of es "main upd w h s0" upd] by (simp add: main_fields)
  have b: "loader (run upd (main upd w h s0) es) = Pending \<longrightarrow>
        loader (step upd (run upd (main upd w h s0) es) (LoadSuccess g)) = Succeeded
        \<and> scene_children (step upd (run upd (main upd w h s0) es) (LoadSuccess g))
          = lights @ [Ground ground, LoadedObject]"
    using step_success [of "run upd (main upd w h s0) es" upd g] pending_gui [of upd w h s0 es]
    by simp
  from a b reachable_grounds [of upd w h s0 es] ground_facts ground_faces_up
  show ?thesis by blast
qed

theorem one_ground_plane_on_success_witness:
  "filter isGround (scene_children (run noUpdate (main noUpdate 800 600 ())
      [Frame, LoadSuccess house, Frame])) = [Ground ground]
   \<and> filter isGround (scene_children (run noUpdate (main noUpdate 800 600 ())
      [Frame, Resize 1024 768])) = []"
proof -
  have a: "loader (run noUpdate (main noUpdate 800 600 ()) [Frame, LoadSuccess house, Frame])
           = Succeeded"
    by (simp add: run_def main_fields onLoad_fields)
  have b: "\<forall>g. LoadSuccess g \<notin> set [Frame, Resize 1024 768 :: unit event]" by simp
  from one_ground_plane_on_success
    [of noUpdate 800 600 "()" "[Frame, LoadSuccess house, Frame]" house]
    one_ground_plane_on_success [of noUpdate 800 600 "()" "[Frame, Resize 1024 768]" house]
    a b
  show ?thesis by simp
qed

text \<open>
  Claim C8. When the loader fails while the load is pending, the failure callback appends
  the error to the console and changes nothing else the script holds. From then on, after
  any events, the load stays failed (the success callback never runs, nothing asks the
  loader again), the scene's children are the four lights (no ground plane, no loaded
  root), there is no loaded object, the panel has the lighting section only, and a frame
  still draws. The library calls of a frame are total functions here: that they do not
  throw is the library's.
\<close>

theorem load_failure_leaves_scene:
  assumes "loader (run upd (main upd w h s0) es) = Pending"
  shows "step upd (run upd (main upd w h s0) es) (LoadError e)
           = (run upd (main upd w h s0) es)
               \<lparr>console := console (run upd (main upd w h s0) es) @ [ErrorLoadingModel e],
                loader := Failed\<rparr>
         \<and> loader (run upd (step upd (run upd (main upd w h s0) es) (LoadError e)) es') = Failed
         \<and> scene_children (run upd (step upd (run upd (main upd w h s0) es) (LoadError e)) es')
           = lights
         \<and> object (run upd (step upd (run upd (main upd w h s0) es) (LoadError e)) es') = None
         \<and> gui (run upd (step upd (run upd (main upd w h s0) es) (LoadError e)) es')
           = [lightingFolder 0.4 0.8 0.4 0.3]
         \<and> rendered (renderer (step upd
               (run upd (step upd (run upd (main upd w h s0) es) (LoadError e)) es') Frame))
           = Suc (rendered (renderer
               (run upd (step upd (run upd (main upd w h s0) es) (LoadError e)) es')))"
proof -
  define st where "st = run upd (main upd w h s0) es"
  define st1 where "st1 = step upd st (LoadError e)"
  from assms have p: "loader st = Pending" by (simp add: st_def)
  from pending_gui [OF assms]
  have u: "gui st = [lightingFolder 0.4 0.8 0.4 0.3]" "scene_children st = lights"
    "object st = None" by (simp_all add: st_def)
  from p have s1: "st1 = st\<lparr>console := console st @ [ErrorLoadingModel e], loader := Failed\<rparr>"
    by (simp add: st1_def onError_def)
  then have f: "loader st1 \<noteq> Pending" by simp
  from run_settled [OF f, of upd es'] s1 u
  have r: "loader (run upd st1 es') = Failed" "scene_children (run upd st1 es') = lights"
    "object (run upd st1 es') = None" "gui (run upd st1 es') = [lightingFolder 0.4 0.8 0.4 0.3]"
    by simp_all
  have fr: "rendered (renderer (step upd (run upd st1 es') Frame))
            = Suc (rendered (renderer (run upd st1 es')))" by simp
  from s1 r fr show ?thesis unfolding st1_def st_def by blast
qed

theorem load_failure_leaves_scene_witness:
  "scene_children (run noUpdate (step noUpdate (run noUpdate (main noUpdate 800 600 ()) [Frame])
       (LoadError ''404'')) [Frame, LoadSuccess house, Frame]) = lights
   \<and> console (step noUpdate (run noUpdate (main noUpdate 800 600 ()) [Frame]) (LoadError ''404''))
     = [ErrorLoadingModel ''404'']"
proof -
  have c: "console (run noUpdate (main noUpdate 800 600 ()) [Frame]) = []"
    by (simp add: run_def main_fields)
  from load_failure_leaves_scene [OF house_pending, of "''404''" "[Frame, LoadSuccess house, Frame]"]
  have "step noUpdate (run noUpdate (main noUpdate 800 600 ()) [Frame]) (LoadError ''404'')
        = (run noUpdate (main noUpdate 800 600 ()) [Frame])
            \<lparr>console := console (run noUpdate (main noUpdate 800 600 ()) [Frame])
               @ [ErrorLoadingModel ''404''], loader := Failed\<rparr>"
    and "scene_children (run noUpdate (step noUpdate (run noUpdate (main noUpdate 800 600 ()) [Frame])
       (LoadError ''404'')) [Frame, LoadSuccess house, Frame]) = lights"
    by blast+
  with c show ?thesis by simp
qed

end
